theory Spec2Isabelle
  imports Complex_Main "HOL-Library.Word"
begin

section \<open>Data model\<close>

text \<open>
  The driver is Python 2. Every exception the code can raise is a value of \<open>error\<close>;
  \<open>NameError\<close> is the use of a global name that the module never binds.
\<close>

datatype error =
  IndexError | ZeroDivisionError | AttributeError | ValueError | NameError | SystemExit

subsection \<open>Floats and durations\<close>

text \<open>
  A Python float is an IEEE 754 double. The model keeps its value as a \<^typ>\<open>real\<close> and
  rounds the exact result of every arithmetic operation to the nearest number with a
  53-bit significand, ties to the even significand, as the hardware does. The exponent range
  is not bounded: overflow to infinity, NaN and gradual underflow are outside the model.
  \<open>round_even\<close> rounds to the nearest integer, ties to even; \<open>fl\<close> is the rounding of a
  real to a double.
\<close>

definition round_even :: "real \<Rightarrow> int" where
  "round_even m =
     (let f = \<lfloor>m\<rfloor>
      in if m - of_int f < 1 / 2 then f
         else if m - of_int f > 1 / 2 then f + 1
         else if even f then f else f + 1)"

definition fl :: "real \<Rightarrow> real" where
  "fl x =
     (if x = 0 then 0
      else let e = \<lfloor>log 2 \<bar>x\<bar>\<rfloor> - 52
           in of_int (round_even (x / 2 powr of_int e)) * 2 powr of_int e)"

text \<open>Exact arithmetic rounds nothing.\<close>

definition exact :: "real \<Rightarrow> real" where
  "exact x = x"

text \<open>
  A power \<^verbatim>\<open>x**n\<close> of a float is computed by the C library's \<^verbatim>\<open>pow\<close>, which is not part
  of the driver and differs between platforms in the last bit of an inexact result. It is an
  argument of the model: any function that returns the exact power when that is a double,
  and does not return 0 for a non-zero base (no underflow, as for \<open>fl\<close>). \<open>exact_pow\<close> is
  the power of exact arithmetic and \<open>rounded_pow\<close> the correctly rounded one.
\<close>

typedef libm_pow =
  "{f :: real \<Rightarrow> nat \<Rightarrow> real.
      (\<forall>x n. x \<noteq> 0 \<longrightarrow> f x n \<noteq> 0) \<and> (\<forall>x n. fl (x ^ n) = x ^ n \<longrightarrow> f x n = x ^ n)}"
  by (rule exI [of _ "\<lambda>x n. x ^ n"]) simp

definition pow :: "libm_pow \<Rightarrow> real \<Rightarrow> nat \<Rightarrow> real" where
  "pow pw x n = Rep_libm_pow pw x n"

definition exact_pow :: "real \<Rightarrow> nat \<Rightarrow> real" where
  "exact_pow x n = x ^ n"

definition rounded_pow :: libm_pow where
  "rounded_pow = Abs_libm_pow (\<lambda>x n. fl (x ^ n))"

text \<open>
  A \<^verbatim>\<open>rospy.Duration\<close> holds whole seconds and nanoseconds: it is modelled by its
  number of nanoseconds, an \<^typ>\<open>int\<close>, and the difference of two durations is exact.
  \<^verbatim>\<open>to_sec()\<close> is \<^verbatim>\<open>float(self.secs) + float(self.nsecs) / 1e9\<close>. The constructor from a
  float takes \<^verbatim>\<open>secs = int(t)\<close> and \<^verbatim>\<open>nsecs = int((t - secs) * 1000000000)\<close>, both
  truncating towards zero. Both take the rounding of the arithmetic as an argument \<open>rnd\<close>,
  so that the same formulas can be read in double arithmetic (\<open>rnd = fl\<close>) and in exact
  arithmetic (\<open>rnd = exact\<close>).
\<close>

definition to_sec_rnd :: "(real \<Rightarrow> real) \<Rightarrow> int \<Rightarrow> real" where
  "to_sec_rnd rnd d =
     rnd (rnd (of_int (d div 10 ^ 9)) + rnd (rnd (of_int (d mod 10 ^ 9)) / 10 ^ 9))"

definition to_sec :: "int \<Rightarrow> real" where
  "to_sec d = to_sec_rnd fl d"

definition trunc :: "real \<Rightarrow> int" where
  "trunc x = (if 0 \<le> x then \<lfloor>x\<rfloor> else \<lceil>x\<rceil>)"

definition Duration_rnd :: "(real \<Rightarrow> real) \<Rightarrow> real \<Rightarrow> int" where
  "Duration_rnd rnd t =
     (let secs = trunc t;
          nsecs = trunc (rnd (rnd (t - of_int secs) * 10 ^ 9))
      in secs * 10 ^ 9 + nsecs)"

definition Duration :: "real \<Rightarrow> int" where
  "Duration t = Duration_rnd fl t"

subsection \<open>Trajectories\<close>

text \<open>\<^verbatim>\<open>trajectory_msgs/JointTrajectoryPoint\<close> and \<^verbatim>\<open>trajectory_msgs/JointTrajectory\<close>,
  with the fields the driver reads and writes. The wall clock \<^verbatim>\<open>time.time()\<close> is an
  argument \<open>now\<close> of every operation that reads it.\<close>

record JointTrajectoryPoint =
  positions :: "real list"
  velocities :: "real list"
  accelerations :: "real list"
  effort :: "real list"
  time_from_start :: int

record JointTrajectory =
  joint_names :: "string list"
  points :: "JointTrajectoryPoint list"

section \<open>Trajectory interpolator\<close>

text \<open>
  \<^verbatim>\<open>interp_cubic(p0, p1, t_abs)\<close>. The three result lists start as \<^verbatim>\<open>[0] * 6\<close> and the
  loop runs over \<^verbatim>\<open>range(len(p0.positions))\<close>. Inside one iteration the reads
  \<^verbatim>\<open>p0.velocities[i]\<close>, \<^verbatim>\<open>p1.positions[i]\<close>, \<^verbatim>\<open>p1.velocities[i]\<close> come first (IndexError
  when a list is too short), then the divisions by \<^verbatim>\<open>T**2\<close> and \<^verbatim>\<open>T**3\<close>
  (ZeroDivisionError when the power is 0), then the store \<^verbatim>\<open>q[i] = ...\<close> (IndexError
  when \<open>i \<ge> 6\<close>). Each operation is rounded, in Python's order of evaluation: powers
  first, then products and quotients, then sums from left to right; \<open>pw\<close> computes the
  powers.
\<close>

fun interp_loop ::
  "(real \<Rightarrow> real) \<Rightarrow> (real \<Rightarrow> nat \<Rightarrow> real) \<Rightarrow> JointTrajectoryPoint \<Rightarrow> JointTrajectoryPoint \<Rightarrow>
   real \<Rightarrow> real \<Rightarrow> nat list \<Rightarrow>
   real list \<times> real list \<times> real list \<Rightarrow> error + (real list \<times> real list \<times> real list)" where
  "interp_loop rnd pw p0 p1 T t [] acc = Inr acc"
| "interp_loop rnd pw p0 p1 T t (i # rest) (q, qdot, qddot) =
     (if length (velocities p0) \<le> i \<or> length (positions p1) \<le> i \<or> length (velocities p1) \<le> i
      then Inl IndexError
      else if pw T 2 = 0 \<or> pw T 3 = 0 then Inl ZeroDivisionError
      else
        let a = positions p0 ! i;
            b = velocities p0 ! i;
            c = rnd (rnd (rnd (rnd (rnd (- 3 * positions p0 ! i) + rnd (3 * positions p1 ! i))
                            - rnd (rnd (2 * T) * velocities p0 ! i))
                       - rnd (T * velocities p1 ! i))
                     / pw T 2);
            d = rnd (rnd (rnd (rnd (rnd (2 * positions p0 ! i) - rnd (2 * positions p1 ! i))
                            + rnd (T * velocities p0 ! i))
                       + rnd (T * velocities p1 ! i))
                     / pw T 3)
        in if length q \<le> i then Inl IndexError
           else interp_loop rnd pw p0 p1 T t rest
                  (q[i := rnd (rnd (rnd (a + rnd (b * t)) + rnd (c * pw t 2))
                               + rnd (d * pw t 3))],
                   qdot[i := rnd (rnd (b + rnd (rnd (2 * c) * t))
                                  + rnd (rnd (3 * d) * pw t 2))],
                   qddot[i := rnd (rnd (2 * c) + rnd (rnd (6 * d) * t))]))"

definition interp_cubic_rnd ::
  "(real \<Rightarrow> real) \<Rightarrow> (real \<Rightarrow> nat \<Rightarrow> real) \<Rightarrow> JointTrajectoryPoint \<Rightarrow> JointTrajectoryPoint \<Rightarrow>
   real \<Rightarrow> error + JointTrajectoryPoint" where
  "interp_cubic_rnd rnd pw p0 p1 t_abs =
     (let T = to_sec_rnd rnd (time_from_start p1 - time_from_start p0);
          t = rnd (t_abs - to_sec_rnd rnd (time_from_start p0))
      in case interp_loop rnd pw p0 p1 T t [0 ..< length (positions p0)]
                (replicate 6 0, replicate 6 0, replicate 6 0) of
           Inl e \<Rightarrow> Inl e
         | Inr (q, qdot, qddot) \<Rightarrow>
             Inr \<lparr>positions = q, velocities = qdot, accelerations = qddot, effort = [],
                  time_from_start = Duration_rnd rnd t_abs\<rparr>)"

text \<open>The function as the driver runs it, in double arithmetic with the platform's
  \<^verbatim>\<open>pow\<close>.\<close>

definition interp_cubic ::
  "libm_pow \<Rightarrow> JointTrajectoryPoint \<Rightarrow> JointTrajectoryPoint \<Rightarrow> real \<Rightarrow>
   error + JointTrajectoryPoint" where
  "interp_cubic pw p0 p1 t_abs = interp_cubic_rnd fl (pow pw) p0 p1 t_abs"

text \<open>
  The scan of \<^verbatim>\<open>sample_traj\<close>: \<^verbatim>\<open>i = 0; while traj.points[i+1].time_from_start.to_sec() < t: i += 1\<close>.
  Reading \<^verbatim>\<open>traj.points[i+1]\<close> past the end raises IndexError.
\<close>

function find_segment :: "JointTrajectoryPoint list \<Rightarrow> real \<Rightarrow> nat \<Rightarrow> error + nat" where
  "find_segment pts t i =
     (if length pts \<le> i + 1 then Inl IndexError
      else if to_sec (time_from_start (pts ! (i + 1))) < t then find_segment pts t (i + 1)
      else Inr i)"
  by pat_completeness auto
termination
  by (relation "measure (\<lambda>(pts, t, i). length pts - i)") auto

declare find_segment.simps [simp del]

text \<open>\<^verbatim>\<open>sample_traj(traj, t)\<close>. On an empty point list both \<^verbatim>\<open>traj.points[0]\<close> and
  \<^verbatim>\<open>traj.points[-1]\<close> raise IndexError. \<^verbatim>\<open>copy.deepcopy\<close> of a point is the point.\<close>

definition sample_traj ::
  "libm_pow \<Rightarrow> JointTrajectory \<Rightarrow> real \<Rightarrow> error + JointTrajectoryPoint" where
  "sample_traj pw traj t =
     (if points traj = [] then Inl IndexError
      else if t \<le> 0 then Inr (hd (points traj))
      else if t \<ge> to_sec (time_from_start (last (points traj))) then Inr (last (points traj))
      else case find_segment (points traj) t 0 of
             Inl e \<Rightarrow> Inl e
           | Inr i \<Rightarrow> interp_cubic pw (points traj ! i) (points traj ! (i + 1)) t)"

text \<open>A \<open>JointVector\<close> of the data model has six entries; the interpolator reads
  positions and velocities.\<close>

definition wf_point :: "JointTrajectoryPoint \<Rightarrow> bool" where
  "wf_point p = (length (positions p) = 6 \<and> length (velocities p) = 6)"

text \<open>The values \<^verbatim>\<open>interp_cubic\<close> stores for joint \<open>i\<close>, named for the proofs: the
  coefficients \<open>c\<close> and \<open>d\<close> and the three results, with the segment duration \<open>T\<close> and the
  time \<open>t\<close> since the segment's start as the loop receives them.\<close>

definition coef_c ::
  "(real \<Rightarrow> real) \<Rightarrow> (real \<Rightarrow> nat \<Rightarrow> real) \<Rightarrow> JointTrajectoryPoint \<Rightarrow> JointTrajectoryPoint \<Rightarrow>
   real \<Rightarrow> nat \<Rightarrow> real" where
  "coef_c rnd pw p0 p1 T i =
     rnd (rnd (rnd (rnd (rnd (- 3 * positions p0 ! i) + rnd (3 * positions p1 ! i))
                 - rnd (rnd (2 * T) * velocities p0 ! i))
            - rnd (T * velocities p1 ! i))
          / pw T 2)"

definition coef_d ::
  "(real \<Rightarrow> real) \<Rightarrow> (real \<Rightarrow> nat \<Rightarrow> real) \<Rightarrow> JointTrajectoryPoint \<Rightarrow> JointTrajectoryPoint \<Rightarrow>
   real \<Rightarrow> nat \<Rightarrow> real" where
  "coef_d rnd pw p0 p1 T i =
     rnd (rnd (rnd (rnd (rnd (2 * positions p0 ! i) - rnd (2 * positions p1 ! i))
                 + rnd (T * velocities p0 ! i))
            + rnd (T * velocities p1 ! i))
          / pw T 3)"

definition cubic_q ::
  "(real \<Rightarrow> real) \<Rightarrow> (real \<Rightarrow> nat \<Rightarrow> real) \<Rightarrow> JointTrajectoryPoint \<Rightarrow> JointTrajectoryPoint \<Rightarrow>
   real \<Rightarrow> real \<Rightarrow> nat \<Rightarrow> real" where
  "cubic_q rnd pw p0 p1 T t i =
     rnd (rnd (rnd (positions p0 ! i + rnd (velocities p0 ! i * t))
               + rnd (coef_c rnd pw p0 p1 T i * pw t 2))
          + rnd (coef_d rnd pw p0 p1 T i * pw t 3))"

definition cubic_qdot ::
  "(real \<Rightarrow> real) \<Rightarrow> (real \<Rightarrow> nat \<Rightarrow> real) \<Rightarrow> JointTrajectoryPoint \<Rightarrow> JointTrajectoryPoint \<Rightarrow>
   real \<Rightarrow> real \<Rightarrow> nat \<Rightarrow> real" where
  "cubic_qdot rnd pw p0 p1 T t i =
     rnd (rnd (velocities p0 ! i + rnd (rnd (2 * coef_c rnd pw p0 p1 T i) * t))
          + rnd (rnd (3 * coef_d rnd pw p0 p1 T i) * pw t 2))"

definition cubic_qddot ::
  "(real \<Rightarrow> real) \<Rightarrow> (real \<Rightarrow> nat \<Rightarrow> real) \<Rightarrow> JointTrajectoryPoint \<Rightarrow> JointTrajectoryPoint \<Rightarrow>
   real \<Rightarrow> real \<Rightarrow> nat \<Rightarrow> real" where
  "cubic_qddot rnd pw p0 p1 T t i =
     rnd (rnd (2 * coef_c rnd pw p0 p1 T i) + rnd (rnd (6 * coef_d rnd pw p0 p1 T i) * t))"

section \<open>Goal validation\<close>

text \<open>The module constant \<^verbatim>\<open>JOINT_NAMES\<close>; \<^verbatim>\<open>main\<close> copies it into the global
  \<^verbatim>\<open>joint_names\<close> unchanged (the prefix is commented out).\<close>

definition JOINT_NAMES :: "string list" where
  "JOINT_NAMES = [''shoulder_joint'', ''upperArm_joint'', ''foreArm_joint'',
                  ''wrist1_joint'', ''wrist2_joint'', ''wrist3_joint'']"

text \<open>\<^verbatim>\<open>math.isinf\<close> and \<^verbatim>\<open>math.isnan\<close>: the model's floats are real numbers, none of
  them infinite or NaN.\<close>

definition isinf :: "real \<Rightarrow> bool" where
  "isinf x = False"

definition isnan :: "real \<Rightarrow> bool" where
  "isnan x = False"

definition traj_is_finite :: "JointTrajectory \<Rightarrow> bool" where
  "traj_is_finite traj =
     list_all (\<lambda>pt. list_all (\<lambda>p. \<not> (isinf p \<or> isnan p)) (positions pt)
                  \<and> list_all (\<lambda>v. \<not> (isinf v \<or> isnan v)) (velocities pt)) (points traj)"

text \<open>\<^verbatim>\<open>max_velocity\<close> is a global read from the parameter server: an argument here.\<close>

definition has_limited_velocities :: "real \<Rightarrow> JointTrajectory \<Rightarrow> bool" where
  "has_limited_velocities max_velocity traj =
     list_all (\<lambda>p. list_all (\<lambda>v. \<not> (\<bar>v\<bar> > max_velocity)) (velocities p)) (points traj)"

definition has_velocities :: "JointTrajectory \<Rightarrow> bool" where
  "has_velocities traj =
     list_all (\<lambda>p. \<not> (length (velocities p) \<noteq> length (positions p))) (points traj)"

definition within_tolerance :: "real list \<Rightarrow> real list \<Rightarrow> real list \<Rightarrow> bool" where
  "within_tolerance a_vec b_vec tol_vec =
     list_all (\<lambda>(a, b, tol). \<not> (\<bar>fl (a - b)\<bar> > tol)) (zip a_vec (zip b_vec tol_vec))"

text \<open>\<^verbatim>\<open>list.index\<close>: the first position of a value, ValueError when it is absent.\<close>

fun index_of :: "'a list \<Rightarrow> 'a \<Rightarrow> error + nat" where
  "index_of [] y = Inl ValueError"
| "index_of (x # xs) y =
     (if x = y then Inr 0
      else case index_of xs y of Inl e \<Rightarrow> Inl e | Inr n \<Rightarrow> Inr (Suc n))"

fun indices_of :: "'a list \<Rightarrow> 'a list \<Rightarrow> error + nat list" where
  "indices_of names [] = Inr []"
| "indices_of names (j # js) =
     (case index_of names j of
        Inl e \<Rightarrow> Inl e
      | Inr i \<Rightarrow> (case indices_of names js of Inl e \<Rightarrow> Inl e | Inr rest \<Rightarrow> Inr (i # rest)))"

text \<open>The comprehension \<^verbatim>\<open>[xs[i] for i in order]\<close>.\<close>

fun pick :: "real list \<Rightarrow> nat list \<Rightarrow> error + real list" where
  "pick xs [] = Inr []"
| "pick xs (i # rest) =
     (if length xs \<le> i then Inl IndexError
      else case pick xs rest of Inl e \<Rightarrow> Inl e | Inr ys \<Rightarrow> Inr (xs ! i # ys))"

definition reorder_point :: "nat list \<Rightarrow> JointTrajectoryPoint \<Rightarrow> error + JointTrajectoryPoint" where
  "reorder_point order p =
     (case pick (positions p) order of
        Inl e \<Rightarrow> Inl e
      | Inr ps \<Rightarrow>
          (case (if velocities p \<noteq> [] then pick (velocities p) order else Inr []) of
             Inl e \<Rightarrow> Inl e
           | Inr vs \<Rightarrow>
               (case (if accelerations p \<noteq> [] then pick (accelerations p) order else Inr []) of
                  Inl e \<Rightarrow> Inl e
                | Inr as \<Rightarrow>
                    Inr \<lparr>positions = ps, velocities = vs, accelerations = as, effort = [],
                         time_from_start = time_from_start p\<rparr>)))"

fun reorder_points :: "nat list \<Rightarrow> JointTrajectoryPoint list \<Rightarrow> error + JointTrajectoryPoint list" where
  "reorder_points order [] = Inr []"
| "reorder_points order (p # ps) =
     (case reorder_point order p of
        Inl e \<Rightarrow> Inl e
      | Inr p' \<Rightarrow> (case reorder_points order ps of Inl e \<Rightarrow> Inl e | Inr ps' \<Rightarrow> Inr (p' # ps')))"

definition reorder_traj_joints :: "JointTrajectory \<Rightarrow> string list \<Rightarrow> error + JointTrajectory" where
  "reorder_traj_joints traj names =
     (case indices_of (joint_names traj) names of
        Inl e \<Rightarrow> Inl e
      | Inr order \<Rightarrow>
          (case reorder_points order (points traj) of
             Inl e \<Rightarrow> Inl e
           | Inr new_points \<Rightarrow> Inr \<lparr>joint_names = names, points = new_points\<rparr>))"

section \<open>Trajectory follower\<close>

text \<open>
  A goal handle of the action server: the id that \<^verbatim>\<open>==\<close> on handles compares, and the
  trajectory of \<^verbatim>\<open>get_goal().trajectory\<close>. The follower keeps the accepted goal's
  trajectory object itself as \<^verbatim>\<open>self.traj\<close>, so the handle stored in the follower carries
  the trajectory as installed (with the inserted first point).
\<close>

record GoalHandle =
  goal_id :: nat
  trajectory :: JointTrajectory

text \<open>\<^verbatim>\<open>sensor_msgs/JointState\<close>, as published and as \<^verbatim>\<open>get_joint_states()\<close> returns it.\<close>

record JointState =
  position :: "real list"
  velocity :: "real list"

text \<open>Modelled from the spec: the bound connection object. Its class is not in the
  source file (the global \<^verbatim>\<open>connected_robot\<close> is only ever \<^verbatim>\<open>None\<close> there); the follower
  calls \<^verbatim>\<open>get_joint_states()\<close> and \<^verbatim>\<open>send_servoj(...)\<close> on it.\<close>

record Robot =
  joint_states :: JointState

text \<open>What the follower tells its collaborators: log lines, the outcome reported on a
  goal handle (by its id), a published joint state, a servo command.\<close>

datatype event =
    LogErr string
  | LogWarn string
  | SetRejected nat
  | SetCanceled nat
  | SetAccepted nat
  | SetSucceeded nat
  | PublishJointState "real list" "real list" "real list"
  | SendServoj "real list"

record Follower =
  robot :: "Robot option"
  goal_handle :: "GoalHandle option"
  traj :: "JointTrajectory option"
  traj_t0 :: real
  first_waypoint_id :: nat
  last_point_sent :: bool
  joint_goal_tolerances :: "real list"

definition STOP_DURATION :: real where
  "STOP_DURATION = 0.5"

text \<open>
  \<^verbatim>\<open>on_goal(self, goal_handle)\<close>. The first test is \<^verbatim>\<open>if self.robot:\<close> (the line
  \<^verbatim>\<open>if not self.robot:\<close> above it is commented out). \<^verbatim>\<open>self.traj\<close> may be \<^verbatim>\<open>None\<close> (after
  \<^verbatim>\<open>set_robot(None)\<close>); reading \<^verbatim>\<open>.points\<close> of it raises AttributeError. The elapsed
  time \<^verbatim>\<open>now - self.traj_t0\<close> is a float subtraction.
\<close>

definition on_goal ::
  "libm_pow \<Rightarrow> real \<Rightarrow> Follower \<Rightarrow> GoalHandle \<Rightarrow> real \<Rightarrow> error + (Follower \<times> event list)" where
  "on_goal pw max_velocity self gh now =
     (if robot self \<noteq> None then
        Inr (self, [LogErr ''Received a goal, but the robot is not connected'',
                    SetRejected (goal_id gh)])
      else if set (joint_names (trajectory gh)) \<noteq> set JOINT_NAMES then
        Inr (self, [LogErr ''Received a goal with incorrect joint names'',
                    SetRejected (goal_id gh)])
      else if \<not> traj_is_finite (trajectory gh) then
        Inr (self, [LogErr ''Received a goal with infinites or NaNs'',
                    SetRejected (goal_id gh)])
      else if \<not> has_velocities (trajectory gh) then
        Inr (self, [LogErr ''Received a goal without velocities'',
                    SetRejected (goal_id gh)])
      else if \<not> has_limited_velocities max_velocity (trajectory gh) then
        Inr (self, [LogErr ''Received a goal with velocities that are higher than max_velocity'',
                    SetRejected (goal_id gh)])
      else
        case reorder_traj_joints (trajectory gh) JOINT_NAMES of
          Inl e \<Rightarrow> Inl e
        | Inr goal_traj \<Rightarrow>
            let (wid, canceled) =
                  (case goal_handle self of
                     Some old \<Rightarrow>
                       (first_waypoint_id self + length (points (trajectory old)),
                        [SetCanceled (goal_id old)])
                   | None \<Rightarrow> (first_waypoint_id self, []))
            in (case traj self of
                  None \<Rightarrow> Inl AttributeError
                | Some cur \<Rightarrow>
                    (case sample_traj pw cur (fl (now - traj_t0 self)) of
                       Inl e \<Rightarrow> Inl e
                     | Inr point0 \<Rightarrow>
                         (let new_traj =
                                goal_traj\<lparr>points :=
                                  point0\<lparr>time_from_start := Duration 0\<rparr> # points goal_traj\<rparr>
                          in Inr (self\<lparr>goal_handle := Some (gh\<lparr>trajectory := new_traj\<rparr>),
                                       traj := Some new_traj,
                                       traj_t0 := now,
                                       first_waypoint_id := wid\<rparr>,
                                  canceled @ [SetAccepted (goal_id gh)])))))"

text \<open>
  \<^verbatim>\<open>on_cancel(self, goal_handle)\<close>. The handle is the active one when the follower has a
  goal and the ids agree.
\<close>

definition on_cancel ::
  "libm_pow \<Rightarrow> Follower \<Rightarrow> GoalHandle \<Rightarrow> real \<Rightarrow> error + (Follower \<times> event list)" where
  "on_cancel pw self gh now =
     (case goal_handle self of
        None \<Rightarrow> Inr (self, [SetCanceled (goal_id gh)])
      | Some active \<Rightarrow>
          if goal_id gh = goal_id active then
            (case traj self of
               None \<Rightarrow> Inl AttributeError
             | Some cur \<Rightarrow>
                 (case sample_traj pw cur (fl (now - traj_t0 self)) of
                    Inl e \<Rightarrow> Inl e
                  | Inr point0 \<Rightarrow>
                      (case sample_traj pw cur (fl (fl (now - traj_t0 self) + STOP_DURATION)) of
                         Inl e \<Rightarrow> Inl e
                       | Inr point1 \<Rightarrow>
                           Inr (self\<lparr>traj_t0 := now,
                                     traj := Some \<lparr>joint_names = JOINT_NAMES,
                                                   points =
                                                     [point0\<lparr>time_from_start := Duration 0\<rparr>,
                                                      point1\<lparr>velocities := replicate 6 0,
                                                             accelerations := replicate 6 0,
                                                             time_from_start := Duration STOP_DURATION\<rparr>]\<rparr>,
                                     goal_handle := None\<rparr>,
                                [SetCanceled (goal_id active)]))))
          else Inr (self, [SetCanceled (goal_id gh)]))"

text \<open>
  Reading \<^verbatim>\<open>state.position\<close> in \<^verbatim>\<open>_update\<close>, where \<^verbatim>\<open>state = last_point\<close> is a
  \<^verbatim>\<open>JointTrajectoryPoint\<close>: the message has the fields \<^verbatim>\<open>positions\<close>, \<^verbatim>\<open>velocities\<close>,
  \<^verbatim>\<open>accelerations\<close>, \<^verbatim>\<open>effort\<close> and \<^verbatim>\<open>time_from_start\<close> and no attribute \<^verbatim>\<open>position\<close>, so
  the read raises AttributeError.
\<close>

definition getattr_position :: "JointTrajectoryPoint \<Rightarrow> error + real list" where
  "getattr_position p = Inl AttributeError"

text \<open>
  \<^verbatim>\<open>_update(self, event)\<close>, the timer callback. The guard is
  \<^verbatim>\<open>if not self.robot and self.traj:\<close>, so the body runs only while no robot is bound;
  \<^verbatim>\<open>self.robot.send_servoj\<close> and \<^verbatim>\<open>self.robot.get_joint_states\<close> on \<^verbatim>\<open>None\<close> raise
  AttributeError.
\<close>

definition follower_update ::
  "libm_pow \<Rightarrow> Follower \<Rightarrow> real \<Rightarrow> error + (Follower \<times> event list)" where
  "follower_update pw self now =
     (if robot self \<noteq> None then Inr (self, [])
      else case traj self of
        None \<Rightarrow> Inr (self, [])
      | Some tr \<Rightarrow>
          if points tr = [] then Inl IndexError
          else if fl (now - traj_t0 self) \<le> to_sec (time_from_start (last (points tr))) then
            (case sample_traj pw tr (fl (now - traj_t0 self)) of
               Inl e \<Rightarrow> Inl e
             | Inr setpoint \<Rightarrow>
                 Inr (self\<lparr>last_point_sent := False\<rparr>,
                      [PublishJointState (positions setpoint) (velocities setpoint)
                         (effort setpoint)]))
          else if \<not> last_point_sent self then
            (let last_point = last (points tr); state = last_point
             in (case getattr_position state of
                  Inl e \<Rightarrow> Inl e
                | Inr state_position \<Rightarrow>
                   (let position_in_tol =
                          within_tolerance state_position (positions last_point)
                            (joint_goal_tolerances self);
                        warnings =
                          (if \<not> position_in_tol
                           then [LogWarn ''Trajectory time exceeded and current robot state not at goal, last point required'']
                           else [])
                    in (case sample_traj pw tr (to_sec (time_from_start (last (points tr)))) of
                          Inl e \<Rightarrow> Inl e
                        | Inr setpoint \<Rightarrow>
                            (case robot self of
                               None \<Rightarrow> Inl AttributeError
                             | Some r \<Rightarrow>
                                 Inr (self\<lparr>last_point_sent := True\<rparr>,
                                      warnings @ [SendServoj (positions setpoint)]))))))
          else
            (case goal_handle self of
               None \<Rightarrow> Inr (self, [])
             | Some g \<Rightarrow>
                 (case robot self of
                    None \<Rightarrow> Inl AttributeError
                  | Some r \<Rightarrow>
                     (let last_point = last (points tr);
                          state = joint_states r;
                          position_in_tol =
                            within_tolerance (position state) (positions last_point)
                              (replicate 6 (fl 0.1));
                          velocity_in_tol =
                            within_tolerance (velocity state) (velocities last_point)
                              (replicate 6 (fl 0.05))
                      in if position_in_tol \<and> velocity_in_tol
                         then Inr (self\<lparr>goal_handle := None\<rparr>, [SetSucceeded (goal_id g)])
                         else Inr (self, [])))))"

section \<open>Device connection\<close>

datatype ConnectionState = DISCONNECTED | CONNECTED | READY_TO_PROGRAM | EXECUTING

text \<open>
  The names bound at module level when the driver runs: its imports, its constants, its
  functions and classes, and the globals that \<^verbatim>\<open>main\<close> assigns. The assignment of
  \<^verbatim>\<open>pub_io_states\<close> is commented out, and nothing imports or defines \<^verbatim>\<open>RobotState\<close>,
  \<^verbatim>\<open>RobotMode\<close>, \<^verbatim>\<open>IOStates\<close>, \<^verbatim>\<open>DigitalIn\<close>, \<^verbatim>\<open>DigitalOut\<close>, \<^verbatim>\<open>Analog\<close> or
  \<^verbatim>\<open>MULT_analog_robotstate\<close>. Reading a global name that is not bound raises NameError.
\<close>

definition module_names :: "string list" where
  "module_names =
     [''roslib'', ''time'', ''sys'', ''threading'', ''math'', ''copy'', ''datetime'',
      ''socket'', ''select'', ''struct'', ''traceback'', ''code'', ''optparse'',
      ''SocketServer'', ''rospy'', ''actionlib'', ''JointState'',
      ''FollowJointTrajectoryAction'', ''JointTrajectory'', ''JointTrajectoryPoint'',
      ''WrenchStamped'', ''Server'', ''MAX_VELOCITY'', ''MIN_PAYLOAD'', ''MAX_PAYLOAD'',
      ''PORT'', ''RT_PORT'', ''DEFAULT_REVERSE_PORT'', ''robot_hostname'', ''IO_SLEEP_TIME'',
      ''prevent_programming'', ''connected_robot'', ''connected_robot_lock'',
      ''connected_robot_cond'', ''last_joint_states'', ''last_joint_states_lock'',
      ''pub_joint_states'', ''pub_wrench'', ''JOINT_NAMES'', ''load_joint_offsets'',
      ''getConnectedRobot'', ''get_my_ip'', ''traj_is_finite'', ''has_limited_velocities'',
      ''has_velocities'', ''within_tolerance'', ''log'', ''joinAll'',
      ''get_segment_duration'', ''reorder_traj_joints'', ''interp_cubic'', ''sample_traj'',
      ''RESET_PROGRAM'', ''URConnection'', ''AUBOTrajectoryFollower'', ''main'',
      ''joint_names'', ''max_velocity'', ''min_payload'', ''max_payload'']"

fun global_names :: "string list \<Rightarrow> error + unit" where
  "global_names [] = Inr ()"
| "global_names (n # ns) = (if n \<in> set module_names then global_names ns else Inl NameError)"

text \<open>
  The decoded packet as \<^verbatim>\<open>__on_packet\<close> reads it: the "real robot enabled" flag, a
  mode that is Ready, Running or another one, and the list of unknown packet types. What
  \<^verbatim>\<open>RobotState.unpack\<close> would compute is an argument \<open>unpack\<close>; it is used only behind the
  lookup of the name \<^verbatim>\<open>RobotState\<close>.
\<close>

datatype RobotMode = READY | RUNNING | OtherMode nat

record RobotState =
  real_robot_enabled :: bool
  robot_mode :: RobotMode
  unknown_ptypes :: "nat list"

text \<open>What the connection does besides changing its fields: the two triggers, the fatal
  log line, the publication of the I/O states (its content is not modelled) and the call
  of \<^verbatim>\<open>throttle_warn_unknown\<close> with the sorted unknown types.\<close>

datatype conn_event =
    TriggerReadyToProgram
  | TriggerHalted
  | TriggerDisconnected
  | LogFatal
  | PublishIOStates
  | WarnUnknown "nat list"

type_synonym byte = "8 word"

record URConnection =
  robot_state :: ConnectionState
  last_state :: "RobotState option"
  buf :: "byte list"
  keep_running :: bool
  trace :: "conn_event list"

text \<open>
  \<^verbatim>\<open>__on_packet(self, buf)\<close>, statement by statement. The first one reads the global
  \<^verbatim>\<open>RobotState\<close>. A packet with the enable flag off ends the process with
  \<^verbatim>\<open>sys.exit(1)\<close>. The block that publishes the I/O states reads \<^verbatim>\<open>IOStates\<close>,
  \<^verbatim>\<open>DigitalIn\<close>, \<^verbatim>\<open>DigitalOut\<close>, \<^verbatim>\<open>MULT_analog_robotstate\<close>, \<^verbatim>\<open>Analog\<close> and
  \<^verbatim>\<open>pub_io_states\<close>, and the state machine reads \<^verbatim>\<open>RobotMode\<close>. \<^verbatim>\<open>self.last_state\<close> is the
  state object itself, so sorting its \<^verbatim>\<open>unknown_ptypes\<close> in place shows in
  \<^verbatim>\<open>last_state\<close> too.
\<close>

definition on_packet :: "(byte list \<Rightarrow> RobotState) \<Rightarrow> URConnection \<Rightarrow> byte list \<Rightarrow> error + URConnection" where
  "on_packet unpack self packet =
     (case global_names [''RobotState''] of
        Inl e \<Rightarrow> Inl e
      | Inr _ \<Rightarrow>
         (let state = unpack packet;
              self1 = self\<lparr>last_state := Some state\<rparr>
          in if \<not> real_robot_enabled state then Inl SystemExit
             else
               (case global_names [''IOStates'', ''DigitalIn'', ''DigitalOut'',
                                   ''MULT_analog_robotstate'', ''Analog'', ''pub_io_states'',
                                   ''RobotMode''] of
                  Inl e \<Rightarrow> Inl e
                | Inr _ \<Rightarrow>
                   (let self2 = self1\<lparr>trace := trace self1 @ [PublishIOStates]\<rparr>;
                        can_execute = (robot_mode state \<in> set [READY, RUNNING]);
                        self3 =
                          (if robot_state self2 = CONNECTED then
                             (if can_execute
                              then self2\<lparr>trace := trace self2 @ [TriggerReadyToProgram],
                                         robot_state := READY_TO_PROGRAM\<rparr>
                              else self2)
                           else if robot_state self2 = READY_TO_PROGRAM then
                             (if \<not> can_execute then self2\<lparr>robot_state := CONNECTED\<rparr> else self2)
                           else if robot_state self2 = EXECUTING then
                             (if \<not> can_execute
                              then self2\<lparr>trace := trace self2 @ [TriggerHalted],
                                         robot_state := CONNECTED\<rparr>
                              else self2)
                           else self2)
                    in if length (unknown_ptypes state) > 0
                       then Inr (self3\<lparr>last_state :=
                                         Some (state\<lparr>unknown_ptypes := sort (unknown_ptypes state)\<rparr>),
                                       trace := trace self3 @ [WarnUnknown (sort (unknown_ptypes state))]\<rparr>)
                       else Inr self3))))"

text \<open>The packets of a stream, handed to \<^verbatim>\<open>__on_packet\<close> one after the other.\<close>

fun on_packets :: "(byte list \<Rightarrow> RobotState) \<Rightarrow> URConnection \<Rightarrow> byte list list \<Rightarrow> error + URConnection" where
  "on_packets unpack self [] = Inr self"
| "on_packets unpack self (p # ps) =
     (case on_packet unpack self p of
        Inl e \<Rightarrow> Inl e
      | Inr self' \<Rightarrow> on_packets unpack self' ps)"

text \<open>The length field of \<^verbatim>\<open>struct.unpack_from("!IB", buf)\<close>: the first four bytes,
  big-endian. It is read only from a buffer of at least 48 bytes.\<close>

definition packet_length :: "byte list \<Rightarrow> nat" where
  "packet_length b =
     unat (b ! 0) * 2 ^ 24 + unat (b ! 1) * 2 ^ 16 + unat (b ! 2) * 2 ^ 8 + unat (b ! 3)"

text \<open>
  The inner loop of \<^verbatim>\<open>__run\<close>: \<^verbatim>\<open>while len(self.__buf) >= 48: ...\<close>. A length field of 0
  takes an empty packet and leaves the buffer as it is, so the loop need not end: the
  result is \<open>None\<close> when it does not.
\<close>

partial_function (option) extract_loop ::
  "(byte list \<Rightarrow> RobotState) \<Rightarrow> URConnection \<Rightarrow> (error + URConnection) option" where
  "extract_loop unpack self =
     (if length (buf self) \<ge> 48 then
        (if length (buf self) \<ge> packet_length (buf self) then
           (case on_packet unpack
                   (self\<lparr>buf := drop (packet_length (buf self)) (buf self)\<rparr>)
                   (take (packet_length (buf self)) (buf self)) of
              Inl e \<Rightarrow> Some (Inl e)
            | Inr self' \<Rightarrow> extract_loop unpack self')
         else Some (Inr self))
      else Some (Inr self))"

definition trigger_disconnected :: "URConnection \<Rightarrow> URConnection" where
  "trigger_disconnected self =
     self\<lparr>trace := trace self @ [TriggerDisconnected], robot_state := DISCONNECTED\<rparr>"

text \<open>
  One round of the outer loop of \<^verbatim>\<open>__run\<close>. \<open>received\<close> is \<open>None\<close> when \<^verbatim>\<open>select\<close> times
  out and otherwise what \<^verbatim>\<open>recv\<close> returned (empty at end of stream).
\<close>

definition run_step ::
  "(byte list \<Rightarrow> RobotState) \<Rightarrow> URConnection \<Rightarrow> byte list option \<Rightarrow> (error + URConnection) option" where
  "run_step unpack self received =
     (case received of
        None \<Rightarrow> Some (Inr ((trigger_disconnected self)\<lparr>keep_running := False\<rparr>))
      | Some data \<Rightarrow>
          if data \<noteq> [] then extract_loop unpack (self\<lparr>buf := buf self @ data\<rparr>)
          else Some (Inr ((trigger_disconnected self)\<lparr>keep_running := False\<rparr>)))"

section \<open>The trajectory invariant and sample data\<close>

text \<open>What every trajectory the follower installs satisfies: there is a first point, it is
  at time 0, and every point carries six positions and six velocities.\<close>

definition traj_inv :: "JointTrajectory \<Rightarrow> bool" where
  "traj_inv tr =
     (points tr \<noteq> [] \<and> time_from_start (hd (points tr)) = 0 \<and> list_all wf_point (points tr))"

text \<open>Concrete points and trajectories on which the theorems below are instantiated: a
  point with the same position \<open>p\<close> and velocity \<open>v\<close> on all six joints, at \<open>t\<close> seconds.\<close>

definition ex_point :: "real \<Rightarrow> real \<Rightarrow> int \<Rightarrow> JointTrajectoryPoint" where
  "ex_point p v t =
     \<lparr>positions = [p, p, p, p, p, p], velocities = [v, v, v, v, v, v],
      accelerations = [0, 0, 0, 0, 0, 0], effort = [], time_from_start = t * 10 ^ 9\<rparr>"

definition ex_traj :: "JointTrajectoryPoint list \<Rightarrow> JointTrajectory" where
  "ex_traj pts = \<lparr>joint_names = JOINT_NAMES, points = pts\<rparr>"

text \<open>A bound robot, goal handles and follower states. The follower is following the
  two-point trajectory from position 0 at time 0 to position 1 at time 2, started at
  time 0; \<open>ex_active\<close> is the handle of the goal that installed it.\<close>

definition ex_robot :: Robot where
  "ex_robot = \<lparr>joint_states = \<lparr>position = [0, 0, 0, 0, 0, 0], velocity = [0, 0, 0, 0, 0, 0]\<rparr>\<rparr>"

definition ex_goal :: "nat \<Rightarrow> GoalHandle" where
  "ex_goal n = \<lparr>goal_id = n, trajectory = ex_traj [ex_point 1 0 2]\<rparr>"

definition ex_active :: GoalHandle where
  "ex_active = \<lparr>goal_id = 0, trajectory = ex_traj [ex_point 0 0 0, ex_point 1 0 2]\<rparr>"

definition ex_follower :: "Robot option \<Rightarrow> GoalHandle option \<Rightarrow> bool \<Rightarrow> Follower" where
  "ex_follower r g sent =
     \<lparr>robot = r, goal_handle = g, traj = Some (ex_traj [ex_point 0 0 0, ex_point 1 0 2]),
      traj_t0 = 0, first_waypoint_id = 10, last_point_sent = sent,
      joint_goal_tolerances = replicate 6 (fl 0.05)\<rparr>"

text \<open>A decoder, a connection and frames for the connection's theorems: the decoder takes
  the mode from the first byte of the packet (0 is Running, 2 is Ready) and reports the
  robot enabled on every non-empty packet; \<open>ex_frame n k\<close> is a frame whose length field
  says \<open>n\<close>, with type byte 16 and \<open>k\<close> payload bytes, and \<open>ex_frame4\<close> gives all four
  bytes of the length field.\<close>

definition ex_unpack :: "byte list \<Rightarrow> RobotState" where
  "ex_unpack p =
     \<lparr>real_robot_enabled = (p \<noteq> []),
      robot_mode = (case p of [] \<Rightarrow> OtherMode 0
                    | b # _ \<Rightarrow> if b = 0 then RUNNING else if b = 2 then READY else OtherMode (unat b)),
      unknown_ptypes = []\<rparr>"

definition ex_conn :: "byte list \<Rightarrow> URConnection" where
  "ex_conn b = \<lparr>robot_state = CONNECTED, last_state = None, buf = b, keep_running = True, trace = []\<rparr>"

definition ex_frame :: "byte \<Rightarrow> nat \<Rightarrow> byte list" where
  "ex_frame n k = [0, 0, 0, n, 16] @ replicate k 0"

definition ex_frame4 :: "byte \<Rightarrow> byte \<Rightarrow> byte \<Rightarrow> byte \<Rightarrow> nat \<Rightarrow> byte list" where
  "ex_frame4 b0 b1 b2 b3 k = [b0, b1, b2, b3, 16] @ replicate k 0"

section \<open>Rounding and durations: lemmas\<close>

lemma round_even_of_int [simp]: "round_even (of_int z) = z"
  by (simp add: round_even_def)

lemma floor_le_round_even: "\<lfloor>m\<rfloor> \<le> round_even m"
  by (simp add: round_even_def Let_def)

lemma round_even_le_ceiling: "round_even m \<le> \<lceil>m\<rceil>"
  unfolding round_even_def Let_def
  by (auto simp: ceiling_altdef)

lemma round_even_error: "\<bar>of_int (round_even m) - m\<bar> \<le> 1 / 2"
  unfolding round_even_def Let_def
  by (auto simp: abs_le_iff)

lemma fl_zero [simp]: "fl 0 = 0"
  by (simp add: fl_def)

lemma binade:
  assumes "x \<noteq> 0"
  shows "2 powr of_int \<lfloor>log 2 \<bar>x\<bar>\<rfloor> \<le> \<bar>x\<bar>"
    and "\<bar>x\<bar> < 2 powr of_int (\<lfloor>log 2 \<bar>x\<bar>\<rfloor> + 1)"
proof -
  have pos: "0 < \<bar>x\<bar>" using assms by simp
  have "\<lfloor>log 2 \<bar>x\<bar>\<rfloor> = \<lfloor>log 2 \<bar>x\<bar>\<rfloor>" by simp
  then have "2 powr of_int \<lfloor>log 2 \<bar>x\<bar>\<rfloor> \<le> \<bar>x\<bar> \<and> \<bar>x\<bar> < 2 powr of_int (\<lfloor>log 2 \<bar>x\<bar>\<rfloor> + 1)"
    using floor_log_eq_powr_iff [OF pos, of 2 "\<lfloor>log 2 \<bar>x\<bar>\<rfloor>"] by simp
  then show "2 powr of_int \<lfloor>log 2 \<bar>x\<bar>\<rfloor> \<le> \<bar>x\<bar>"
    and "\<bar>x\<bar> < 2 powr of_int (\<lfloor>log 2 \<bar>x\<bar>\<rfloor> + 1)" by simp_all
qed

lemma mantissa_ge:
  assumes "x \<noteq> 0"
  shows "2 ^ 52 \<le> \<bar>x\<bar> / 2 powr of_int (\<lfloor>log 2 \<bar>x\<bar>\<rfloor> - 52)"
proof -
  let ?e = "\<lfloor>log 2 \<bar>x\<bar>\<rfloor>"
  have "(2::real) powr of_int (?e - 52) = 2 powr of_int ?e / 2 powr 52"
    by (simp add: powr_diff)
  also have "(2::real) powr 52 = 2 ^ 52" by simp
  finally have p: "(2::real) powr of_int (?e - 52) = 2 powr of_int ?e / 2 ^ 52" .
  have "2 ^ 52 * (2 powr of_int ?e / 2 ^ 52) \<le> \<bar>x\<bar>"
    using binade(1) [OF assms] by simp
  then show ?thesis
    unfolding p by (simp add: field_simps)
qed

lemma fl_pos:
  assumes "0 < x"
  shows "0 < fl x"
proof -
  let ?p = "(2::real) powr of_int (\<lfloor>log 2 \<bar>x\<bar>\<rfloor> - 52)"
  have "2 ^ 52 \<le> x / ?p" using mantissa_ge [of x] assms by simp
  moreover have "(1::real) \<le> 2 ^ 52" by simp
  ultimately have "(1::real) \<le> x / ?p" by linarith
  then have "1 \<le> \<lfloor>x / ?p\<rfloor>" by linarith
  then have "1 \<le> round_even (x / ?p)" using floor_le_round_even [of "x / ?p"] by linarith
  then have "0 < (of_int (round_even (x / ?p)) :: real)" by simp
  then have "0 < of_int (round_even (x / ?p)) * ?p" by simp
  then show ?thesis using assms by (simp add: fl_def Let_def)
qed

lemma fl_neg:
  assumes "x < 0"
  shows "fl x < 0"
proof -
  let ?p = "(2::real) powr of_int (\<lfloor>log 2 \<bar>x\<bar>\<rfloor> - 52)"
  have "2 ^ 52 \<le> \<bar>x\<bar> / ?p" using mantissa_ge [of x] assms by simp
  then have "2 ^ 52 \<le> - (x / ?p)" using assms by simp
  moreover have "(1::real) \<le> 2 ^ 52" by simp
  ultimately have "x / ?p \<le> - 1" by linarith
  then have "\<lceil>x / ?p\<rceil> \<le> - 1" by (simp add: ceiling_le_iff)
  then have "round_even (x / ?p) \<le> - 1" using round_even_le_ceiling [of "x / ?p"] by linarith
  then have "(of_int (round_even (x / ?p)) :: real) < 0" by simp
  then have "of_int (round_even (x / ?p)) * ?p < 0" by (simp add: mult_neg_pos)
  then show ?thesis using assms by (simp add: fl_def Let_def)
qed

lemma fl_eq_0_iff [simp]: "fl x = 0 \<longleftrightarrow> x = 0"
  using fl_pos [of x] fl_neg [of x] by (cases "x = 0") (auto simp: neq_iff)

lemma fl_error:
  assumes "x \<noteq> 0"
  shows "\<bar>fl x - x\<bar> \<le> 2 powr of_int (\<lfloor>log 2 \<bar>x\<bar>\<rfloor> - 52) / 2"
proof -
  let ?p = "(2::real) powr of_int (\<lfloor>log 2 \<bar>x\<bar>\<rfloor> - 52)"
  have p: "(0::real) < ?p" by simp
  have "fl x - x = (of_int (round_even (x / ?p)) - x / ?p) * ?p"
    using assms by (simp add: fl_def Let_def algebra_simps)
  then have "\<bar>fl x - x\<bar> = \<bar>of_int (round_even (x / ?p)) - x / ?p\<bar> * ?p"
    by (simp add: abs_mult)
  also have "\<dots> \<le> 1 / 2 * ?p"
    using round_even_error [of "x / ?p"] p by (intro mult_right_mono) simp_all
  finally show ?thesis by simp
qed

lemma fl_below_1:
  assumes "0 \<le> x" and "x \<le> 999999999 / 10 ^ 9"
  shows "fl x < 1"
proof (cases "x = 0")
  case True
  then show ?thesis by simp
next
  case False
  then have pos: "0 < x" using assms by simp
  have "log 2 \<bar>x\<bar> < 0" using pos assms(2) by simp
  then have "\<lfloor>log 2 \<bar>x\<bar>\<rfloor> - 52 \<le> - 53" by linarith
  then have "(2::real) powr of_int (\<lfloor>log 2 \<bar>x\<bar>\<rfloor> - 52) \<le> 2 powr of_int (- 53)"
    by (intro powr_mono) simp_all
  also have "\<dots> = 1 / 2 ^ 53" by (simp add: powr_minus_divide)
  finally have "(2::real) powr of_int (\<lfloor>log 2 \<bar>x\<bar>\<rfloor> - 52) / 2 \<le> 1 / 2 ^ 54" by simp
  with fl_error [OF False] have "fl x \<le> x + 1 / 2 ^ 54" by linarith
  with assms(2) show ?thesis by simp
qed

lemma fl_abs_ge_1:
  assumes "1 \<le> \<bar>x\<bar>"
  shows "1 \<le> \<bar>fl x\<bar>"
proof -
  have nz: "x \<noteq> 0" using assms by auto
  let ?e = "\<lfloor>log 2 \<bar>x\<bar>\<rfloor>"
  let ?p = "(2::real) powr of_int (?e - 52)"
  have "0 \<le> log 2 \<bar>x\<bar>" using assms by simp
  then have e: "0 \<le> ?e" by simp
  have "(2::real) powr of_int (- 52) \<le> ?p" using e by (intro powr_mono) simp_all
  then have p: "(1::real) / 2 ^ 52 \<le> ?p" by (simp add: powr_minus_divide)
  have m: "2 ^ 52 \<le> \<bar>x\<bar> / ?p" by (rule mantissa_ge [OF nz])
  have r: "2 ^ 52 \<le> \<bar>of_int (round_even (x / ?p)) :: real\<bar>"
  proof (cases "0 < x")
    case True
    then have "2 ^ 52 \<le> x / ?p" using m by simp
    then have "2 ^ 52 \<le> \<lfloor>x / ?p\<rfloor>" by (simp add: le_floor_iff)
    then have "2 ^ 52 \<le> round_even (x / ?p)" using floor_le_round_even [of "x / ?p"] by linarith
    then have "(2 ^ 52 :: real) \<le> of_int (round_even (x / ?p))"
      by (metis of_int_le_iff of_int_numeral of_int_power)
    then show ?thesis by simp
  next
    case False
    then have "x < 0" using nz by simp
    then have "x / ?p \<le> - (2 ^ 52)" using m by simp
    then have "\<lceil>x / ?p\<rceil> \<le> - (2 ^ 52)" by (simp add: ceiling_le_iff)
    then have "round_even (x / ?p) \<le> - (2 ^ 52)" using round_even_le_ceiling [of "x / ?p"] by linarith
    then have "(of_int (round_even (x / ?p)) :: real) \<le> - (2 ^ 52)"
      by (metis of_int_le_iff of_int_minus of_int_numeral of_int_power)
    then show ?thesis by simp
  qed
  have "1 = 2 ^ 52 * (1 / 2 ^ 52 :: real)" by simp
  also have "\<dots> \<le> \<bar>of_int (round_even (x / ?p)) :: real\<bar> * ?p"
    using r p by (intro mult_mono) simp_all
  also have "\<dots> = \<bar>fl x\<bar>" using nz by (simp add: fl_def Let_def abs_mult)
  finally show ?thesis .
qed

lemma fl_eval:
  assumes "x \<noteq> 0" and "2 powr of_int k \<le> \<bar>x\<bar>" and "\<bar>x\<bar> < 2 powr of_int (k + 1)"
  shows "fl x = of_int (round_even (x / 2 powr of_int (k - 52))) * 2 powr of_int (k - 52)"
proof -
  have pos: "0 < \<bar>x\<bar>" using assms(1) by simp
  have "\<lfloor>log 2 \<bar>x\<bar>\<rfloor> = k"
    using floor_log_eq_powr_iff [OF pos, of 2 k] assms by simp
  then show ?thesis using assms(1) by (simp add: fl_def Let_def)
qed

lemma fl_of_int:
  assumes "\<bar>n\<bar> < 2 ^ 53"
  shows "fl (of_int n) = of_int n"
proof (cases "n = 0")
  case True
  then show ?thesis by simp
next
  case False
  let ?x = "of_int n :: real"
  let ?e = "\<lfloor>log 2 \<bar>?x\<bar>\<rfloor>"
  have nz: "?x \<noteq> 0" using False by simp
  have "1 \<le> \<bar>?x\<bar>" using False by (simp flip: of_int_abs)
  then have "0 \<le> log 2 \<bar>?x\<bar>" by simp
  then have e0: "0 \<le> ?e" by simp
  have "\<bar>?x\<bar> < 2 ^ 53" using assms by (simp flip: of_int_abs)
  also have "(2::real) ^ 53 = 2 powr 53" by simp
  finally have "log 2 \<bar>?x\<bar> < 53" using nz by (simp add: log_less_iff)
  then have e1: "?e \<le> 52" by linarith
  define j where "j = nat (52 - ?e)"
  have j: "of_int (?e - 52) = - real j" using e1 by (simp add: j_def)
  have p: "(2::real) powr of_int (?e - 52) = 1 / 2 ^ j"
    unfolding j by (simp add: powr_minus_divide powr_realpow)
  have m: "?x / 2 powr of_int (?e - 52) = of_int (n * 2 ^ j)"
    unfolding p by simp
  have "fl ?x = of_int (round_even (of_int (n * 2 ^ j))) * (1 / 2 ^ j)"
    using nz unfolding fl_def Let_def m p by simp
  also have "\<dots> = of_int (n * 2 ^ j) * (1 / 2 ^ j)"
    by (simp only: round_even_of_int)
  also have "\<dots> = ?x" by simp
  finally show ?thesis .
qed

lemma fl_numeral [simp]:
  "numeral k < (2 ^ 53 :: int) \<Longrightarrow> fl (numeral k) = numeral k"
  "numeral k < (2 ^ 53 :: int) \<Longrightarrow> fl (- numeral k) = - numeral k"
  using fl_of_int [of "numeral k"] fl_of_int [of "- numeral k"] by simp_all

lemma fl_one [simp]: "fl 1 = 1" "fl (- 1) = - 1"
  using fl_of_int [of 1] fl_of_int [of "- 1"] by simp_all

lemma fl_half [simp]: "fl (1 / 2) = 1 / 2"
  by (subst fl_eval [where k = "- 1"]) (simp_all add: powr_minus_divide round_even_def)

lemma trunc_of_int [simp]: "trunc (of_int z) = z"
  by (simp add: trunc_def)

lemma trunc_numeral [simp]: "trunc 0 = 0" "trunc (numeral k) = numeral k"
  by (simp_all add: trunc_def)

lemma Duration_0 [simp]: "Duration 0 = 0"
  by (simp add: Duration_def Duration_rnd_def)

lemma Duration_half [simp]: "Duration (1 / 2) = 500000000"
  by (simp add: Duration_def Duration_rnd_def trunc_def)

lemma Duration_STOP [simp]: "Duration STOP_DURATION = 500000000"
  by (simp add: STOP_DURATION_def)

lemma to_sec_0 [simp]: "to_sec 0 = 0"
  by (simp add: to_sec_def to_sec_rnd_def)

lemma to_sec_id: "to_sec_rnd exact d = of_int d / 10 ^ 9"
proof -
  have "of_int d = (of_int (d div 10 ^ 9 * 10 ^ 9 + d mod 10 ^ 9) :: real)" by simp
  also have "\<dots> = of_int (d div 10 ^ 9) * 10 ^ 9 + of_int (d mod 10 ^ 9)"
    by (simp only: of_int_add of_int_mult of_int_power of_int_numeral)
  finally show ?thesis by (simp add: to_sec_rnd_def exact_def field_simps)
qed

lemma to_sec_seconds: "\<bar>s\<bar> < 2 ^ 53 \<Longrightarrow> to_sec (s * 10 ^ 9) = of_int s"
  by (simp add: to_sec_def to_sec_rnd_def fl_of_int)

lemma to_sec_nonzero:
  assumes "d \<noteq> 0"
  shows "to_sec d \<noteq> 0"
proof -
  define s where "s = d div 10 ^ 9"
  define n where "n = d mod 10 ^ 9"
  define f where "f = fl (fl (of_int n) / 10 ^ 9)"
  have n: "0 \<le> n" "n < 10 ^ 9" by (simp_all add: n_def)
  have dn: "d = s * 10 ^ 9 + n" by (simp add: s_def n_def)
  have fn: "fl (of_int n) = of_int n" using n by (intro fl_of_int) simp
  have x: "0 \<le> (of_int n / 10 ^ 9 :: real)" "(of_int n / 10 ^ 9 :: real) \<le> 999999999 / 10 ^ 9"
    using n by simp_all
  have f0: "0 \<le> f"
  proof (cases "n = 0")
    case True then show ?thesis by (simp add: f_def)
  next
    case False
    then have "0 < (of_int n / 10 ^ 9 :: real)" using n by simp
    then show ?thesis unfolding f_def fn using fl_pos by (simp add: less_imp_le)
  qed
  have f1: "f < 1" unfolding f_def fn using fl_below_1 [OF x] by simp
  have ts: "to_sec d = fl (fl (of_int s) + f)"
    by (simp add: to_sec_def to_sec_rnd_def s_def n_def f_def)
  consider "1 \<le> s" | "s = 0" | "s \<le> - 1" by linarith
  then have "fl (of_int s) + f \<noteq> 0"
  proof cases
    case 1
    then have "0 < (of_int s :: real)" "1 \<le> \<bar>of_int s :: real\<bar>" by simp_all
    then have "1 \<le> fl (of_int s)" using fl_pos [of "of_int s"] fl_abs_ge_1 [of "of_int s"] by simp
    then show ?thesis using f0 by simp
  next
    case 2
    then have "n \<noteq> 0" using assms dn by simp
    then have "0 < (of_int n / 10 ^ 9 :: real)" using n by simp
    then have "0 < f" unfolding f_def fn by (rule fl_pos)
    then show ?thesis using 2 by simp
  next
    case 3
    then have "(of_int s :: real) < 0" "1 \<le> \<bar>of_int s :: real\<bar>" by simp_all
    then have "fl (of_int s) \<le> - 1" using fl_neg [of "of_int s"] fl_abs_ge_1 [of "of_int s"] by simp
    then show ?thesis using f1 by simp
  qed
  then show ?thesis unfolding ts by simp
qed

lemma pow_nonzero: "x \<noteq> 0 \<Longrightarrow> pow pw x n \<noteq> 0"
  using Rep_libm_pow [of pw] by (simp add: pow_def)

lemma pow_exact: "fl (x ^ n) = x ^ n \<Longrightarrow> pow pw x n = x ^ n"
  using Rep_libm_pow [of pw] by (simp add: pow_def)

lemma pow_0 [simp]:
  assumes "0 < n"
  shows "pow pw 0 n = 0"
proof -
  have z: "(0::real) ^ n = 0" using assms by simp
  have "fl ((0::real) ^ n) = 0 ^ n" unfolding z by simp
  from pow_exact [OF this, of pw] show ?thesis unfolding z .
qed

lemma rounded_pow_apply: "pow rounded_pow x n = fl (x ^ n)"
proof -
  have "(\<lambda>x n. fl (x ^ n)) \<in>
          {f :: real \<Rightarrow> nat \<Rightarrow> real.
             (\<forall>x n. x \<noteq> 0 \<longrightarrow> f x n \<noteq> 0) \<and> (\<forall>x n. fl (x ^ n) = x ^ n \<longrightarrow> f x n = x ^ n)}"
    by simp
  then show ?thesis
    by (simp add: pow_def rounded_pow_def Abs_libm_pow_inverse)
qed

section \<open>The interpolator: lemmas\<close>

lemma upt_6: "[0 ..< 6] = [0, 1, 2, 3, 4, 5::nat]"
  by (simp add: upt_rec)

lemma replicate_6: "replicate 6 x = [x, x, x, x, x, x]"
  by (simp add: eval_nat_numeral)

lemma interp_cubic_rnd_wf:
  assumes "wf_point p0" and "wf_point p1"
    and "pw (to_sec_rnd rnd (time_from_start p1 - time_from_start p0)) 2 \<noteq> 0"
    and "pw (to_sec_rnd rnd (time_from_start p1 - time_from_start p0)) 3 \<noteq> 0"
  shows "interp_cubic_rnd rnd pw p0 p1 t_abs =
           Inr \<lparr>positions =
                  map (cubic_q rnd pw p0 p1 (to_sec_rnd rnd (time_from_start p1 - time_from_start p0))
                         (rnd (t_abs - to_sec_rnd rnd (time_from_start p0)))) [0 ..< 6],
                velocities =
                  map (cubic_qdot rnd pw p0 p1 (to_sec_rnd rnd (time_from_start p1 - time_from_start p0))
                         (rnd (t_abs - to_sec_rnd rnd (time_from_start p0)))) [0 ..< 6],
                accelerations =
                  map (cubic_qddot rnd pw p0 p1 (to_sec_rnd rnd (time_from_start p1 - time_from_start p0))
                         (rnd (t_abs - to_sec_rnd rnd (time_from_start p0)))) [0 ..< 6],
                effort = [], time_from_start = Duration_rnd rnd t_abs\<rparr>"
  using assms
  by (simp add: interp_cubic_rnd_def wf_point_def upt_6 replicate_6 Let_def
        cubic_q_def cubic_qdot_def cubic_qddot_def coef_c_def coef_d_def)

lemma interp_cubic_total:
  assumes "wf_point p0" and "wf_point p1" and "time_from_start p0 \<noteq> time_from_start p1"
  shows "\<exists>w. interp_cubic pw p0 p1 t_abs = Inr w"
proof -
  have "to_sec (time_from_start p1 - time_from_start p0) \<noteq> 0"
    using assms(3) by (intro to_sec_nonzero) simp
  then have "pow pw (to_sec_rnd fl (time_from_start p1 - time_from_start p0)) 2 \<noteq> 0"
    and "pow pw (to_sec_rnd fl (time_from_start p1 - time_from_start p0)) 3 \<noteq> 0"
    by (simp_all add: to_sec_def pow_nonzero)
  from interp_cubic_rnd_wf [where pw = "pow pw" and rnd = fl, OF assms(1) assms(2) this, of t_abs]
  show ?thesis by (simp add: interp_cubic_def)
qed

lemma find_segment_ok:
  "\<lbrakk>i < k; k < length pts; t \<le> to_sec (time_from_start (pts ! k))\<rbrakk>
   \<Longrightarrow> \<exists>j. find_segment pts t i = Inr j \<and> i \<le> j \<and> j + 1 < length pts
          \<and> t \<le> to_sec (time_from_start (pts ! (j + 1)))
          \<and> (j = i \<or> to_sec (time_from_start (pts ! j)) < t)"
proof (induction pts t i rule: find_segment.induct)
  case (1 pts t i)
  show ?case
  proof (cases "to_sec (time_from_start (pts ! (i + 1))) < t")
    case True
    with "1.prems" have "i + 1 \<noteq> k" by auto
    with "1.prems" have lt: "i + 1 < k" by simp
    from "1.prems" have nle: "\<not> length pts \<le> i + 1" by simp
    from "1.IH" [OF nle True lt "1.prems"(2) "1.prems"(3)]
    obtain j where j: "find_segment pts t (i + 1) = Inr j" "i + 1 \<le> j" "j + 1 < length pts"
      "t \<le> to_sec (time_from_start (pts ! (j + 1)))"
      "j = i + 1 \<or> to_sec (time_from_start (pts ! j)) < t"
      by blast
    have "find_segment pts t i = Inr j"
      using nle True j(1) by (subst find_segment.simps) simp
    moreover have "to_sec (time_from_start (pts ! j)) < t" using j(5) True by auto
    ultimately show ?thesis using j by auto
  next
    case False
    from "1.prems" have nle: "\<not> length pts \<le> i + 1" by simp
    have "find_segment pts t i = Inr i"
      using nle False by (subst find_segment.simps) simp
    then show ?thesis using nle False by auto
  qed
qed

lemma sample_traj_inv_total:
  assumes "traj_inv tr"
  shows "\<exists>w. sample_traj pw tr t = Inr w"
proof -
  let ?pts = "points tr"
  from assms have ne: "?pts \<noteq> []" and t0: "time_from_start (hd ?pts) = 0"
    and wf: "list_all wf_point ?pts"
    by (simp_all add: traj_inv_def)
  show ?thesis
  proof (cases "t \<le> 0 \<or> to_sec (time_from_start (last ?pts)) \<le> t")
    case True
    then show ?thesis using ne by (auto simp: sample_traj_def)
  next
    case False
    then have pos: "0 < t" and below: "t < to_sec (time_from_start (last ?pts))" by auto
    have "last ?pts \<noteq> hd ?pts" using t0 pos below by auto
    then have len: "1 < length ?pts"
      using ne by (cases ?pts) (auto split: if_splits)
    have lastk: "last ?pts = ?pts ! (length ?pts - 1)"
      using ne by (simp add: last_conv_nth)
    have k1: "0 < length ?pts - 1" and k2: "length ?pts - 1 < length ?pts"
      using len by simp_all
    have k3: "t \<le> to_sec (time_from_start (?pts ! (length ?pts - 1)))"
      using below lastk by simp
    from find_segment_ok [OF k1 k2 k3]
    obtain j where j: "find_segment ?pts t 0 = Inr j" "j + 1 < length ?pts"
      "t \<le> to_sec (time_from_start (?pts ! (j + 1)))"
      "j = 0 \<or> to_sec (time_from_start (?pts ! j)) < t"
      by blast
    have "to_sec (time_from_start (?pts ! 0)) = 0" using t0 ne by (simp add: hd_conv_nth)
    with j(4) pos have "to_sec (time_from_start (?pts ! j)) < t" by auto
    with j(3) have "to_sec (time_from_start (?pts ! j)) \<noteq> to_sec (time_from_start (?pts ! (j + 1)))"
      by simp
    then have neq: "time_from_start (?pts ! j) \<noteq> time_from_start (?pts ! (j + 1))" by auto
    have wfj: "wf_point (?pts ! j)" "wf_point (?pts ! (j + 1))"
      using wf j(2) by (simp_all add: list_all_length)
    from interp_cubic_total [OF wfj neq, of pw t]
    obtain w where "interp_cubic pw (?pts ! j) (?pts ! (j + 1)) t = Inr w" by blast
    then show ?thesis
      using False ne j(1) by (simp add: sample_traj_def)
  qed
qed

section \<open>The interpolator: clamping and totality\<close>

text \<open>
  The second test of \<^verbatim>\<open>sample_traj\<close> is reached only when \<open>t > 0\<close>. A trajectory whose
  points are all at time 0 is sampled at \<open>t = 0\<close> as its first point, although \<open>t\<close> is then
  also at least the last point's time: the last point is not returned.
\<close>

theorem sample_traj_clamp_counterexample:
  "points (ex_traj [ex_point 1 0 0, ex_point 2 0 0]) \<noteq> [] \<and>
   to_sec (time_from_start (last (points (ex_traj [ex_point 1 0 0, ex_point 2 0 0])))) \<le> 0 \<and>
   (\<forall>pw. sample_traj pw (ex_traj [ex_point 1 0 0, ex_point 2 0 0]) 0 = Inr (ex_point 1 0 0)) \<and>
   (\<forall>pw. sample_traj pw (ex_traj [ex_point 1 0 0, ex_point 2 0 0]) 0
     \<noteq> Inr (last (points (ex_traj [ex_point 1 0 0, ex_point 2 0 0]))))"
  by (simp add: ex_traj_def ex_point_def sample_traj_def)

text \<open>
  C5. For a trajectory with at least one waypoint, \<^verbatim>\<open>sample_traj\<close> returns the first
  waypoint unchanged when \<open>t \<le> 0\<close>, and the last waypoint unchanged when \<open>t > 0\<close> and \<open>t\<close>
  is at least the last waypoint's \<open>time_from_start\<close> in seconds.
\<close>

theorem sample_traj_clamps:
  assumes "points tr \<noteq> []"
  shows "(t \<le> 0 \<longrightarrow> sample_traj pw tr t = Inr (hd (points tr))) \<and>
         (0 < t \<and> to_sec (time_from_start (last (points tr))) \<le> t \<longrightarrow>
            sample_traj pw tr t = Inr (last (points tr)))"
  using assms by (simp add: sample_traj_def)

theorem sample_traj_clamps_witness:
  "points (ex_traj [ex_point 1 0 0, ex_point 2 0 3]) \<noteq> [] \<and>
   (- 1 :: real) \<le> 0 \<and>
   sample_traj rounded_pow (ex_traj [ex_point 1 0 0, ex_point 2 0 3]) (- 1) = Inr (ex_point 1 0 0) \<and>
   (0 :: real) < 5 \<and>
   to_sec (time_from_start (last (points (ex_traj [ex_point 1 0 0, ex_point 2 0 3])))) \<le> 5 \<and>
   sample_traj rounded_pow (ex_traj [ex_point 1 0 0, ex_point 2 0 3]) 5 = Inr (ex_point 2 0 3)"
proof -
  let ?tr = "ex_traj [ex_point 1 0 0, ex_point 2 0 3]"
  have ne: "points ?tr \<noteq> []" by (simp add: ex_traj_def)
  have l: "to_sec (time_from_start (last (points ?tr))) \<le> 5"
    using to_sec_seconds [of 3] by (simp add: ex_traj_def ex_point_def)
  from sample_traj_clamps [OF ne, of "- 1" rounded_pow] sample_traj_clamps [OF ne, of 5 rounded_pow] l ne
  show ?thesis by (simp add: ex_traj_def)
qed

text \<open>
  C8. On a trajectory with the data-model invariant (a first point at time 0, times in
  non-decreasing order, six positions and six velocities per point), sampling at any time
  of the trajectory's own range returns a point: no division by zero and no read past the
  end. The segment the scan finds starts strictly before \<open>t\<close> and ends at or after it, so
  its duration is a non-zero number of nanoseconds, and neither \<^verbatim>\<open>T**2\<close> nor \<^verbatim>\<open>T**3\<close>
  is 0. The lemma \<open>sample_traj_inv_total\<close> shows that neither the order of the times nor
  the range of \<open>t\<close> is needed for that.
\<close>

theorem sample_traj_total:
  assumes "points tr \<noteq> []"
    and "time_from_start (hd (points tr)) = 0"
    and "sorted (map time_from_start (points tr))"
    and "list_all wf_point (points tr)"
    and "0 \<le> t" and "t \<le> to_sec (time_from_start (last (points tr)))"
  shows "\<exists>w. sample_traj pw tr t = Inr w"
  using assms sample_traj_inv_total [of tr pw t] by (simp add: traj_inv_def)

theorem sample_traj_total_witness:
  "points (ex_traj [ex_point 0 0 0, ex_point 1 0 1, ex_point 1 0 2]) \<noteq> [] \<and>
   time_from_start (hd (points (ex_traj [ex_point 0 0 0, ex_point 1 0 1, ex_point 1 0 2]))) = 0 \<and>
   sorted (map time_from_start (points (ex_traj [ex_point 0 0 0, ex_point 1 0 1, ex_point 1 0 2]))) \<and>
   list_all wf_point (points (ex_traj [ex_point 0 0 0, ex_point 1 0 1, ex_point 1 0 2])) \<and>
   (0::real) \<le> 3 / 2 \<and>
   3 / 2 \<le> to_sec (time_from_start (last (points (ex_traj [ex_point 0 0 0, ex_point 1 0 1, ex_point 1 0 2])))) \<and>
   (\<exists>w. sample_traj rounded_pow (ex_traj [ex_point 0 0 0, ex_point 1 0 1, ex_point 1 0 2]) (3 / 2) = Inr w)"
proof -
  let ?tr = "ex_traj [ex_point 0 0 0, ex_point 1 0 1, ex_point 1 0 2]"
  have h1: "points ?tr \<noteq> []" by (simp add: ex_traj_def)
  have h2: "time_from_start (hd (points ?tr)) = 0" by (simp add: ex_traj_def ex_point_def)
  have h3: "sorted (map time_from_start (points ?tr))" by (simp add: ex_traj_def ex_point_def)
  have h4: "list_all wf_point (points ?tr)" by (simp add: ex_traj_def ex_point_def wf_point_def)
  have h5: "(0::real) \<le> 3 / 2" by simp
  have h6: "3 / 2 \<le> to_sec (time_from_start (last (points ?tr)))"
    using to_sec_seconds [of 2] by (simp add: ex_traj_def ex_point_def)
  from sample_traj_total [OF h1 h2 h3 h4 h5 h6, of rounded_pow] h1 h2 h3 h4 h5 h6
  show ?thesis by blast
qed

section \<open>The interpolator: the segment boundaries\<close>

lemma to_sec_id_nonzero: "d \<noteq> 0 \<Longrightarrow> to_sec_rnd exact d \<noteq> 0"
  using to_sec_id [of d] by simp

lemma interp_cubic_exact:
  assumes "wf_point p0" and "wf_point p1" and "time_from_start p0 \<noteq> time_from_start p1"
  shows "interp_cubic_rnd exact exact_pow p0 p1 t_abs =
           Inr \<lparr>positions =
                  map (cubic_q exact exact_pow p0 p1 (to_sec_rnd exact (time_from_start p1 - time_from_start p0))
                         (t_abs - to_sec_rnd exact (time_from_start p0))) [0 ..< 6],
                velocities =
                  map (cubic_qdot exact exact_pow p0 p1 (to_sec_rnd exact (time_from_start p1 - time_from_start p0))
                         (t_abs - to_sec_rnd exact (time_from_start p0))) [0 ..< 6],
                accelerations =
                  map (cubic_qddot exact exact_pow p0 p1 (to_sec_rnd exact (time_from_start p1 - time_from_start p0))
                         (t_abs - to_sec_rnd exact (time_from_start p0))) [0 ..< 6],
                effort = [], time_from_start = Duration_rnd exact t_abs\<rparr>"
proof -
  have "to_sec_rnd exact (time_from_start p1 - time_from_start p0) \<noteq> 0"
    using assms(3) by (intro to_sec_id_nonzero) simp
  then have "exact_pow (to_sec_rnd exact (time_from_start p1 - time_from_start p0)) 2 \<noteq> 0"
    and "exact_pow (to_sec_rnd exact (time_from_start p1 - time_from_start p0)) 3 \<noteq> 0"
    by (simp_all add: exact_pow_def)
  moreover have "exact (t_abs - to_sec_rnd exact (time_from_start p0))
      = t_abs - to_sec_rnd exact (time_from_start p0)"
    by (simp add: exact_def)
  ultimately show ?thesis
    using interp_cubic_rnd_wf [where pw = exact_pow and rnd = exact, OF assms(1) assms(2), of t_abs]
    by simp
qed

lemma to_sec_id_diff:
  "to_sec_rnd exact (a - b) = to_sec_rnd exact a - to_sec_rnd exact b"
  using to_sec_id [of "a - b"] to_sec_id [of a] to_sec_id [of b]
  by (simp add: field_simps)

lemma cubic_q_end:
  assumes "T \<noteq> 0"
  shows "cubic_q exact exact_pow p0 p1 T T i = positions p1 ! i"
  using assms
  by (simp add: cubic_q_def coef_c_def coef_d_def exact_def exact_pow_def field_simps
        power2_eq_square power3_eq_cube)

lemma cubic_qdot_end:
  assumes "T \<noteq> 0"
  shows "cubic_qdot exact exact_pow p0 p1 T T i = velocities p1 ! i"
  using assms
  by (simp add: cubic_qdot_def coef_c_def coef_d_def exact_def exact_pow_def field_simps
        power2_eq_square power3_eq_cube)

lemma cubic_q_start: "rnd 0 = 0 \<Longrightarrow> pw 0 2 = 0 \<Longrightarrow> pw 0 3 = 0 \<Longrightarrow>
    rnd (positions p0 ! i) = positions p0 ! i \<Longrightarrow>
    cubic_q rnd pw p0 p1 T 0 i = positions p0 ! i"
  by (simp add: cubic_q_def)

lemma cubic_qdot_start: "rnd 0 = 0 \<Longrightarrow> pw 0 2 = 0 \<Longrightarrow>
    rnd (velocities p0 ! i) = velocities p0 ! i \<Longrightarrow>
    cubic_qdot rnd pw p0 p1 T 0 i = velocities p0 ! i"
  by (simp add: cubic_qdot_def)

lemma map_nth_6: "length xs = 6 \<Longrightarrow> (\<And>i. i < 6 \<Longrightarrow> f i = xs ! i) \<Longrightarrow> map f [0 ..< 6] = xs"
  by (intro nth_equalityI) simp_all

lemma cubic_q_deriv:
  "((\<lambda>t. cubic_q exact exact_pow p0 p1 T (t - t0) i) has_real_derivative
      cubic_qdot exact exact_pow p0 p1 T (t - t0) i) (at t)"
  unfolding cubic_q_def cubic_qdot_def exact_def exact_pow_def
  by (auto intro!: derivative_eq_intros simp: power2_eq_square)

lemma cubic_qdot_deriv:
  "((\<lambda>t. cubic_qdot exact exact_pow p0 p1 T (t - t0) i) has_real_derivative
      cubic_qddot exact exact_pow p0 p1 T (t - t0) i) (at t)"
  unfolding cubic_qdot_def cubic_qddot_def exact_def exact_pow_def
  by (auto intro!: derivative_eq_intros)

lemma fl_c: "fl (- (7 / 100)) = - (5044031582654956 / 2 ^ 56)"
  by (subst fl_eval [where k = "- 4"]) (simp_all add: powr_minus_divide round_even_def)

lemma fl_d: "fl (1 / 125) = 4611686018427388 / 2 ^ 59"
  by (subst fl_eval [where k = "- 7"]) (simp_all add: powr_minus_divide round_even_def)

lemma fl_c100: "fl (- (5044031582654956 / 2 ^ 56) * 100) = - (7881299347898369 / 2 ^ 50)"
  by (subst fl_eval [where k = 2]) (simp_all add: powr_minus_divide round_even_def)

lemma fl_d1000: "fl (4611686018427388 / 2 ^ 59 * 1000) = 8"
  by (subst fl_eval [where k = 3]) (simp_all add: powr_minus_divide round_even_def)

lemma fl_c100_again: "fl (- (7881299347898369 / 2 ^ 50)) = - (7881299347898369 / 2 ^ 50)"
  by (subst fl_eval [where k = 2]) (simp_all add: powr_minus_divide round_even_def)

lemma fl_q: "fl (- (7881299347898369 / 2 ^ 50) + 8) = 1125899906842623 / 2 ^ 50"
  by (subst fl_eval [where k = "- 1"]) (simp_all add: powr_minus_divide round_even_def)

lemma cubic_q_rounded:
  assumes "positions p0 ! i = 0" and "velocities p0 ! i = 0"
    and "positions p1 ! i = 1" and "velocities p1 ! i = 1"
  shows "cubic_q fl (pow pw) p0 p1 10 10 i = 1125899906842623 / 2 ^ 50"
proof -
  have p2: "pow pw 10 2 = 100" using pow_exact [of 10 2 pw] by simp
  have p3: "pow pw 10 3 = 1000" using pow_exact [of 10 3 pw] by simp
  have c: "coef_c fl (pow pw) p0 p1 10 i = - (5044031582654956 / 2 ^ 56)"
    using assms fl_c by (simp add: coef_c_def p2)
  have d: "coef_d fl (pow pw) p0 p1 10 i = 4611686018427388 / 2 ^ 59"
    using assms fl_d by (simp add: coef_d_def p3)
  have "cubic_q fl (pow pw) p0 p1 10 10 i =
          fl (fl (fl (- (5044031582654956 / 2 ^ 56) * 100)) + fl (4611686018427388 / 2 ^ 59 * 1000))"
    unfolding cubic_q_def c d p2 p3 using assms by simp
  also have "\<dots> = 1125899906842623 / 2 ^ 50"
    unfolding fl_c100 fl_d1000 fl_c100_again fl_q ..
  finally show ?thesis .
qed

lemma interp_cubic_end_value:
  "wf_point (ex_point 0 0 0) \<and> wf_point (ex_point 1 1 10) \<and>
   time_from_start (ex_point 0 0 0) < time_from_start (ex_point 1 1 10) \<and>
   (\<exists>a. interp_cubic pw (ex_point 0 0 0) (ex_point 1 1 10)
            (to_sec (time_from_start (ex_point 1 1 10))) = Inr a \<and>
        positions a = replicate 6 (1125899906842623 / 2 ^ 50) \<and>
        positions a \<noteq> positions (ex_point 1 1 10))"
proof -
  let ?p0 = "ex_point 0 0 0" and ?p1 = "ex_point 1 1 10"
  have w: "wf_point ?p0" "wf_point ?p1" by (simp_all add: wf_point_def ex_point_def)
  have lt: "time_from_start ?p0 < time_from_start ?p1" by (simp add: ex_point_def)
  have T: "to_sec_rnd fl (time_from_start ?p1 - time_from_start ?p0) = 10"
    using to_sec_seconds [of 10] by (simp add: ex_point_def to_sec_def)
  have t: "fl (to_sec (time_from_start ?p1) - to_sec_rnd fl (time_from_start ?p0)) = 10"
    using to_sec_seconds [of 10] to_sec_0 by (simp add: ex_point_def to_sec_def)
  have nz: "pow pw (to_sec_rnd fl (time_from_start ?p1 - time_from_start ?p0)) 2 \<noteq> 0"
    "pow pw (to_sec_rnd fl (time_from_start ?p1 - time_from_start ?p0)) 3 \<noteq> 0"
    unfolding T by (simp_all add: pow_nonzero)
  have v: "i < 6 \<Longrightarrow> cubic_q fl (pow pw) ?p0 ?p1 10 10 i = 1125899906842623 / 2 ^ 50" for i
  proof -
    assume "i < 6"
    then have "i \<in> {0, 1, 2, 3, 4, 5}" by auto
    then have "positions ?p0 ! i = 0 \<and> velocities ?p0 ! i = 0 \<and>
               positions ?p1 ! i = 1 \<and> velocities ?p1 ! i = 1"
      by (auto simp: ex_point_def)
    then show ?thesis by (intro cubic_q_rounded) simp_all
  qed
  have m: "map (cubic_q fl (pow pw) ?p0 ?p1 10 10) [0 ..< 6]
             = replicate 6 (1125899906842623 / 2 ^ 50)"
    by (intro nth_equalityI) (simp_all add: v)
  have "interp_cubic pw ?p0 ?p1 (to_sec (time_from_start ?p1)) =
          Inr \<lparr>positions = replicate 6 (1125899906842623 / 2 ^ 50),
               velocities = map (cubic_qdot fl (pow pw) ?p0 ?p1 10 10) [0 ..< 6],
               accelerations = map (cubic_qddot fl (pow pw) ?p0 ?p1 10 10) [0 ..< 6],
               effort = [],
               time_from_start = Duration_rnd fl (to_sec (time_from_start ?p1))\<rparr>"
    unfolding interp_cubic_def
      interp_cubic_rnd_wf [where pw = "pow pw" and rnd = fl, OF w nz] T t m ..
  moreover have "replicate 6 (1125899906842623 / 2 ^ 50 :: real) \<noteq> positions ?p1"
    by (simp add: ex_point_def replicate_6)
  ultimately show ?thesis using w lt by simp
qed




section \<open>The follower: lemmas\<close>

lemma traj_is_finite_True: "traj_is_finite tr"
  by (simp add: traj_is_finite_def isinf_def isnan_def list_all_iff)

lemma reorder_ex: "reorder_traj_joints (ex_traj [ex_point 1 0 2]) JOINT_NAMES = Inr (ex_traj [\<lparr>positions = [1, 1, 1, 1, 1, 1], velocities = [0, 0, 0, 0, 0, 0],
      accelerations = [0, 0, 0, 0, 0, 0], effort = [], time_from_start = 2000000000\<rparr>])"
  by (simp add: reorder_traj_joints_def ex_traj_def JOINT_NAMES_def ex_point_def reorder_point_def)

lemma follower_update_never_sends:
  assumes "follower_update pw self now = Inr (self', evs)"
  shows "SendServoj ps \<notin> set evs" and "last_point_sent self' \<Longrightarrow> last_point_sent self"
  using assms
  by (auto simp: follower_update_def getattr_position_def Let_def
      split: if_splits option.splits sum.splits)

lemma ex_follower_traj_inv: "traj_inv (ex_traj [ex_point 0 0 0, ex_point 1 0 2])"
  by (simp add: traj_inv_def ex_traj_def ex_point_def wf_point_def)

section \<open>The follower: goals, cancellation, the periodic update\<close>

text \<open>
  C1. A goal is to be rejected as "not connected" when no connection is bound, and to pass
  the connection check when one is bound. The check in \<^verbatim>\<open>on_goal\<close> is inverted: with a
  robot bound the goal is rejected with the "not connected" log line, and with no robot
  bound the same goal passes the check and is accepted.
\<close>

theorem on_goal_inverted_connection_check:
  "on_goal pw 10 (ex_follower (Some ex_robot) None True) (ex_goal 1) 1 =
     Inr (ex_follower (Some ex_robot) None True,
          [LogErr ''Received a goal, but the robot is not connected'', SetRejected 1]) \<and>
   (\<exists>self'. on_goal pw 10 (ex_follower None None True) (ex_goal 1) 1 = Inr (self', [SetAccepted 1]))"
proof -
  obtain w where w: "sample_traj pw (ex_traj [ex_point 0 0 0, ex_point 1 0 2]) (fl (1 - 0)) = Inr w"
    using sample_traj_inv_total [OF ex_follower_traj_inv] by blast
  have v: "has_velocities (ex_traj [ex_point 1 0 2])"
    "has_limited_velocities 10 (ex_traj [ex_point 1 0 2])"
    by (simp_all add: ex_traj_def ex_point_def has_velocities_def has_limited_velocities_def)
  have j: "joint_names (ex_traj [ex_point 1 0 2]) = JOINT_NAMES" by (simp add: ex_traj_def)
  show ?thesis
    using w v j
    by (simp add: on_goal_def ex_follower_def ex_goal_def traj_is_finite_True reorder_ex Let_def)
qed

text \<open>
  C2. When \<^verbatim>\<open>on_goal\<close> accepts a goal while another goal is active, the installed
  trajectory starts with the sample of the previously active trajectory at
  \<open>now - traj_t0\<close>, with \<open>time_from_start\<close> set to 0, followed by the goal's reordered
  points; \<open>traj_t0\<close> becomes \<open>now\<close>, the old goal is reported canceled and the new one
  accepted. And a goal that passes the checks is accepted whenever the active trajectory
  satisfies the trajectory invariant.
\<close>

theorem on_goal_splice:
  assumes "goal_handle self = Some old"
  shows "(\<forall>self' evs.
            on_goal pw max_velocity self gh now = Inr (self', evs) \<and> SetAccepted (goal_id gh) \<in> set evs \<longrightarrow>
            (\<exists>cur point0 goal_traj new_traj.
               traj self = Some cur \<and>
               sample_traj pw cur (fl (now - traj_t0 self)) = Inr point0 \<and>
               reorder_traj_joints (trajectory gh) JOINT_NAMES = Inr goal_traj \<and>
               new_traj = goal_traj\<lparr>points := point0\<lparr>time_from_start := 0\<rparr> # points goal_traj\<rparr> \<and>
               traj self' = Some new_traj \<and>
               hd (points new_traj) = point0\<lparr>time_from_start := 0\<rparr> \<and>
               time_from_start (hd (points new_traj)) = 0 \<and>
               traj_t0 self' = now \<and>
               goal_handle self' = Some (gh\<lparr>trajectory := new_traj\<rparr>) \<and>
               evs = [SetCanceled (goal_id old), SetAccepted (goal_id gh)])) \<and>
         (\<forall>cur goal_traj.
            robot self = None \<and> set (joint_names (trajectory gh)) = set JOINT_NAMES \<and>
            has_velocities (trajectory gh) \<and> has_limited_velocities max_velocity (trajectory gh) \<and>
            reorder_traj_joints (trajectory gh) JOINT_NAMES = Inr goal_traj \<and>
            traj self = Some cur \<and> traj_inv cur \<longrightarrow>
            (\<exists>self' evs. on_goal pw max_velocity self gh now = Inr (self', evs) \<and>
                          SetAccepted (goal_id gh) \<in> set evs))"
proof (intro conjI allI impI)
  fix self' evs
  assume "on_goal pw max_velocity self gh now = Inr (self', evs) \<and> SetAccepted (goal_id gh) \<in> set evs"
  then show "\<exists>cur point0 goal_traj new_traj.
               traj self = Some cur \<and>
               sample_traj pw cur (fl (now - traj_t0 self)) = Inr point0 \<and>
               reorder_traj_joints (trajectory gh) JOINT_NAMES = Inr goal_traj \<and>
               new_traj = goal_traj\<lparr>points := point0\<lparr>time_from_start := 0\<rparr> # points goal_traj\<rparr> \<and>
               traj self' = Some new_traj \<and>
               hd (points new_traj) = point0\<lparr>time_from_start := 0\<rparr> \<and>
               time_from_start (hd (points new_traj)) = 0 \<and>
               traj_t0 self' = now \<and>
               goal_handle self' = Some (gh\<lparr>trajectory := new_traj\<rparr>) \<and>
               evs = [SetCanceled (goal_id old), SetAccepted (goal_id gh)]"
    using assms
    by (auto simp: on_goal_def Let_def split: if_splits sum.splits option.splits)
next
  fix cur goal_traj
  assume h: "robot self = None \<and> set (joint_names (trajectory gh)) = set JOINT_NAMES \<and>
            has_velocities (trajectory gh) \<and> has_limited_velocities max_velocity (trajectory gh) \<and>
            reorder_traj_joints (trajectory gh) JOINT_NAMES = Inr goal_traj \<and>
            traj self = Some cur \<and> traj_inv cur"
  then obtain w where w: "sample_traj pw cur (fl (now - traj_t0 self)) = Inr w"
    using sample_traj_inv_total by blast
  show "\<exists>self' evs. on_goal pw max_velocity self gh now = Inr (self', evs) \<and>
                     SetAccepted (goal_id gh) \<in> set evs"
    using h w assms by (simp add: on_goal_def traj_is_finite_True Let_def)
qed

theorem on_goal_splice_witness:
  "goal_handle (ex_follower None (Some ex_active) True) = Some ex_active \<and>
   (\<exists>self' evs.
      on_goal rounded_pow 10 (ex_follower None (Some ex_active) True) (ex_goal 1) 1 = Inr (self', evs) \<and>
      SetAccepted (goal_id (ex_goal 1)) \<in> set evs \<and>
      (\<exists>cur point0 new_traj.
         traj (ex_follower None (Some ex_active) True) = Some cur \<and>
         sample_traj rounded_pow cur (fl (1 - traj_t0 (ex_follower None (Some ex_active) True))) = Inr point0 \<and>
         traj self' = Some new_traj \<and>
         hd (points new_traj) = point0\<lparr>time_from_start := 0\<rparr> \<and>
         time_from_start (hd (points new_traj)) = 0 \<and>
         traj_t0 self' = 1 \<and>
         evs = [SetCanceled (goal_id ex_active), SetAccepted (goal_id (ex_goal 1))]))"
proof -
  let ?F = "ex_follower None (Some ex_active) True"
  have g: "goal_handle ?F = Some ex_active" by (simp add: ex_follower_def)
  have v: "robot ?F = None \<and> set (joint_names (trajectory (ex_goal 1))) = set JOINT_NAMES \<and>
     has_velocities (trajectory (ex_goal 1)) \<and> has_limited_velocities 10 (trajectory (ex_goal 1)) \<and>
     reorder_traj_joints (trajectory (ex_goal 1)) JOINT_NAMES =
       Inr (ex_traj [\<lparr>positions = [1, 1, 1, 1, 1, 1], velocities = [0, 0, 0, 0, 0, 0],
              accelerations = [0, 0, 0, 0, 0, 0], effort = [], time_from_start = 2000000000\<rparr>]) \<and>
     traj ?F = Some (ex_traj [ex_point 0 0 0, ex_point 1 0 2]) \<and>
     traj_inv (ex_traj [ex_point 0 0 0, ex_point 1 0 2])"
    using reorder_ex ex_follower_traj_inv
    by (simp add: ex_follower_def ex_goal_def)
       (simp add: ex_traj_def ex_point_def has_velocities_def has_limited_velocities_def)
  note inst = on_goal_splice [OF g, where pw = rounded_pow and max_velocity = 10 and gh = "ex_goal 1" and now = 1]
  from inst v obtain self' evs where r:
    "on_goal rounded_pow 10 ?F (ex_goal 1) 1 = Inr (self', evs) \<and> SetAccepted (goal_id (ex_goal 1)) \<in> set evs"
    by blast
  with inst have "\<exists>cur point0 goal_traj new_traj.
               traj ?F = Some cur \<and>
               sample_traj rounded_pow cur (fl (1 - traj_t0 ?F)) = Inr point0 \<and>
               reorder_traj_joints (trajectory (ex_goal 1)) JOINT_NAMES = Inr goal_traj \<and>
               new_traj = goal_traj\<lparr>points := point0\<lparr>time_from_start := 0\<rparr> # points goal_traj\<rparr> \<and>
               traj self' = Some new_traj \<and>
               hd (points new_traj) = point0\<lparr>time_from_start := 0\<rparr> \<and>
               time_from_start (hd (points new_traj)) = 0 \<and>
               traj_t0 self' = 1 \<and>
               goal_handle self' = Some ((ex_goal 1)\<lparr>trajectory := new_traj\<rparr>) \<and>
               evs = [SetCanceled (goal_id ex_active), SetAccepted (goal_id (ex_goal 1))]"
    by blast
  with r g show ?thesis by blast
qed

text \<open>
  C3. Cancelling the active goal replaces the trajectory by exactly two points: the sample
  of the old trajectory at cancel time with \<open>time_from_start\<close> 0, and the sample half a
  second later with all velocities and accelerations 0 and \<open>time_from_start\<close> 0.5; the
  goal is reported canceled and cleared. The cancellation returns whenever the active
  trajectory satisfies the trajectory invariant.
\<close>

theorem on_cancel_active:
  assumes "goal_handle self = Some active" and "goal_id gh = goal_id active"
  shows "(\<forall>self' evs.
            on_cancel pw self gh now = Inr (self', evs) \<longrightarrow>
            (\<exists>cur point0 point1 new0 new1.
               traj self = Some cur \<and>
               sample_traj pw cur (fl (now - traj_t0 self)) = Inr point0 \<and>
               sample_traj pw cur (fl (fl (now - traj_t0 self) + 1 / 2)) = Inr point1 \<and>
               traj self' = Some \<lparr>joint_names = JOINT_NAMES, points = [new0, new1]\<rparr> \<and>
               new0 = point0\<lparr>time_from_start := 0\<rparr> \<and>
               positions new1 = positions point1 \<and>
               velocities new1 = [0, 0, 0, 0, 0, 0] \<and>
               accelerations new1 = [0, 0, 0, 0, 0, 0] \<and>
               time_from_start new1 = 500000000 \<and>
               traj_t0 self' = now \<and>
               goal_handle self' = None \<and>
               evs = [SetCanceled (goal_id active)])) \<and>
         (\<forall>cur. traj self = Some cur \<and> traj_inv cur \<longrightarrow>
            (\<exists>self' evs. on_cancel pw self gh now = Inr (self', evs)))"
proof (intro conjI allI impI)
  fix self' evs
  assume "on_cancel pw self gh now = Inr (self', evs)"
  then show "\<exists>cur point0 point1 new0 new1.
               traj self = Some cur \<and>
               sample_traj pw cur (fl (now - traj_t0 self)) = Inr point0 \<and>
               sample_traj pw cur (fl (fl (now - traj_t0 self) + 1 / 2)) = Inr point1 \<and>
               traj self' = Some \<lparr>joint_names = JOINT_NAMES, points = [new0, new1]\<rparr> \<and>
               new0 = point0\<lparr>time_from_start := 0\<rparr> \<and>
               positions new1 = positions point1 \<and>
               velocities new1 = [0, 0, 0, 0, 0, 0] \<and>
               accelerations new1 = [0, 0, 0, 0, 0, 0] \<and>
               time_from_start new1 = 500000000 \<and>
               traj_t0 self' = now \<and>
               goal_handle self' = None \<and>
               evs = [SetCanceled (goal_id active)]"
    using assms
    by (auto simp: on_cancel_def STOP_DURATION_def replicate_6
        split: if_splits sum.splits option.splits)
next
  fix cur
  assume h: "traj self = Some cur \<and> traj_inv cur"
  then obtain w0 where w0: "sample_traj pw cur (fl (now - traj_t0 self)) = Inr w0"
    using sample_traj_inv_total by blast
  from h obtain w1 where
    w1: "sample_traj pw cur (fl (fl (now - traj_t0 self) + STOP_DURATION)) = Inr w1"
    using sample_traj_inv_total by blast
  show "\<exists>self' evs. on_cancel pw self gh now = Inr (self', evs)"
    using h w0 w1 assms by (simp add: on_cancel_def)
qed

theorem on_cancel_active_witness:
  "goal_handle (ex_follower None (Some ex_active) True) = Some ex_active \<and>
   goal_id (ex_goal 0) = goal_id ex_active \<and>
   (\<exists>self' evs.
      on_cancel rounded_pow (ex_follower None (Some ex_active) True) (ex_goal 0) 1 = Inr (self', evs) \<and>
      (\<exists>new0 new1.
         traj self' = Some \<lparr>joint_names = JOINT_NAMES, points = [new0, new1]\<rparr> \<and>
         time_from_start new0 = 0 \<and>
         velocities new1 = [0, 0, 0, 0, 0, 0] \<and>
         accelerations new1 = [0, 0, 0, 0, 0, 0] \<and>
         time_from_start new1 = 500000000 \<and>
         goal_handle self' = None \<and>
         evs = [SetCanceled (goal_id ex_active)]))"
proof -
  let ?F = "ex_follower None (Some ex_active) True"
  have g: "goal_handle ?F = Some ex_active" by (simp add: ex_follower_def)
  have i: "goal_id (ex_goal 0) = goal_id ex_active" by (simp add: ex_goal_def ex_active_def)
  have v: "traj ?F = Some (ex_traj [ex_point 0 0 0, ex_point 1 0 2]) \<and>
     traj_inv (ex_traj [ex_point 0 0 0, ex_point 1 0 2])"
    using ex_follower_traj_inv by (simp add: ex_follower_def)
  note inst = on_cancel_active [OF g i, where pw = rounded_pow and now = 1]
  from inst v obtain self' evs where r: "on_cancel rounded_pow ?F (ex_goal 0) 1 = Inr (self', evs)"
    by blast
  with inst have "\<exists>cur point0 point1 new0 new1.
               traj ?F = Some cur \<and>
               sample_traj rounded_pow cur (fl (1 - traj_t0 ?F)) = Inr point0 \<and>
               sample_traj rounded_pow cur (fl (fl (1 - traj_t0 ?F) + 1 / 2)) = Inr point1 \<and>
               traj self' = Some \<lparr>joint_names = JOINT_NAMES, points = [new0, new1]\<rparr> \<and>
               new0 = point0\<lparr>time_from_start := 0\<rparr> \<and>
               positions new1 = positions point1 \<and>
               velocities new1 = [0, 0, 0, 0, 0, 0] \<and>
               accelerations new1 = [0, 0, 0, 0, 0, 0] \<and>
               time_from_start new1 = 500000000 \<and>
               traj_t0 self' = 1 \<and>
               goal_handle self' = None \<and>
               evs = [SetCanceled (goal_id ex_active)]"
    by blast
  then obtain new0 new1 where
    "traj self' = Some \<lparr>joint_names = JOINT_NAMES, points = [new0, new1]\<rparr>"
    "time_from_start new0 = 0" "velocities new1 = [0, 0, 0, 0, 0, 0]"
    "accelerations new1 = [0, 0, 0, 0, 0, 0]" "time_from_start new1 = 500000000"
    "goal_handle self' = None" "evs = [SetCanceled (goal_id ex_active)]"
    by auto
  with r g i show ?thesis by blast
qed

text \<open>
  C4. Once the elapsed time exceeds the span of the trajectory and the final point has not
  been sent, the update is to issue the final waypoint's command once and mark the
  trajectory fully sent. The body of \<^verbatim>\<open>_update\<close> runs only with no robot bound; there the
  branch reads \<^verbatim>\<open>state.position\<close> of a trajectory point and would call \<^verbatim>\<open>send_servoj\<close> on
  no robot, so it raises AttributeError, sends nothing and marks nothing. With a robot
  bound the update does nothing at all. By \<open>follower_update_never_sends\<close> no update ever
  issues a servo command or sets the flag.
\<close>

theorem follower_update_final_point_not_sent:
  "follower_update pw (ex_follower None None False) 3 = Inl AttributeError \<and>
   follower_update pw (ex_follower (Some ex_robot) None False) 3 =
     Inr (ex_follower (Some ex_robot) None False, [])"
  using to_sec_seconds [of 2]
  by (simp add: follower_update_def ex_follower_def ex_traj_def ex_point_def getattr_position_def)

section \<open>The connection: lemmas\<close>

lemma RobotState_unbound: "global_names [''RobotState''] = Inl NameError"
  by (simp add: module_names_def)

lemma on_packet_NameError: "on_packet unpack self p = Inl NameError"
  by (simp only: on_packet_def RobotState_unbound sum.case)

lemma extract_loop_short:
  "length (buf self) < 48 \<Longrightarrow> extract_loop unpack self = Some (Inr self)"
  by (subst extract_loop.simps) simp

lemma extract_loop_incomplete:
  "length (buf self) < packet_length (buf self) \<Longrightarrow> extract_loop unpack self = Some (Inr self)"
  by (subst extract_loop.simps) simp

lemma extract_loop_complete:
  "48 \<le> length (buf self) \<Longrightarrow> packet_length (buf self) \<le> length (buf self) \<Longrightarrow>
   extract_loop unpack self = Some (Inl NameError)"
  by (subst extract_loop.simps) (simp add: on_packet_NameError)

section \<open>The connection: framing and the state machine\<close>

text \<open>
  C6. A buffer of one complete 60-byte frame and 10 more bytes is to give exactly one
  decoded packet and keep the 10 bytes. The inner loop of \<^verbatim>\<open>__run\<close> does split the frame
  off by its big-endian length field (and stops, with the buffer unchanged, when the field
  declares more than is buffered, as for the fields 260 and 16909116 on 70 bytes), but
  \<^verbatim>\<open>__on_packet\<close> then reads the global \<^verbatim>\<open>RobotState\<close>, which the module never binds: the
  call raises NameError, nothing is decoded and the read loop ends.
\<close>

theorem extract_loop_decodes_nothing:
  "length (ex_frame 60 55 @ replicate 10 7) = 70 \<and>
   packet_length (ex_frame 60 55 @ replicate 10 7) = 60 \<and>
   take 60 (ex_frame 60 55 @ replicate 10 7) = ex_frame 60 55 \<and>
   drop 60 (ex_frame 60 55 @ replicate 10 7) = replicate 10 7 \<and>
   on_packet ex_unpack ((ex_conn (ex_frame 60 55 @ replicate 10 7))\<lparr>buf := replicate 10 7\<rparr>)
     (ex_frame 60 55) = Inl NameError \<and>
   extract_loop ex_unpack (ex_conn (ex_frame 60 55 @ replicate 10 7)) = Some (Inl NameError) \<and>
   packet_length (ex_frame4 0 0 1 4 65) = 260 \<and>
   extract_loop ex_unpack (ex_conn (ex_frame4 0 0 1 4 65)) = Some (Inr (ex_conn (ex_frame4 0 0 1 4 65))) \<and>
   packet_length (ex_frame4 1 2 3 60 65) = 16909116 \<and>
   extract_loop ex_unpack (ex_conn (ex_frame4 1 2 3 60 65)) =
     Some (Inr (ex_conn (ex_frame4 1 2 3 60 65)))"
proof -
  have a: "length (ex_frame 60 55 @ replicate 10 7) = 70"
    "packet_length (ex_frame 60 55 @ replicate 10 7) = 60"
    "take 60 (ex_frame 60 55 @ replicate 10 7) = ex_frame 60 55"
    "drop 60 (ex_frame 60 55 @ replicate 10 7) = replicate 10 7"
    by (simp_all add: ex_frame_def packet_length_def)
  have b: "extract_loop ex_unpack (ex_conn (ex_frame 60 55 @ replicate 10 7)) = Some (Inl NameError)"
    using a by (intro extract_loop_complete) (simp_all add: ex_conn_def)
  have c: "packet_length (ex_frame4 0 0 1 4 65) = 260"
    "packet_length (ex_frame4 1 2 3 60 65) = 16909116"
    by (simp_all add: ex_frame4_def packet_length_def)
  have d: "extract_loop ex_unpack (ex_conn (ex_frame4 0 0 1 4 65)) = Some (Inr (ex_conn (ex_frame4 0 0 1 4 65)))"
    using c(1) by (intro extract_loop_incomplete) (simp add: ex_conn_def, simp add: ex_frame4_def)
  have e: "extract_loop ex_unpack (ex_conn (ex_frame4 1 2 3 60 65)) = Some (Inr (ex_conn (ex_frame4 1 2 3 60 65)))"
    using c(2) by (intro extract_loop_incomplete) (simp add: ex_conn_def, simp add: ex_frame4_def)
  show ?thesis using a b c d e on_packet_NameError by simp
qed

text \<open>
  C10. The loop looks for a packet only while at least 48 bytes are buffered: on a shorter
  buffer, also one that holds a complete frame, nothing is decoded and the bytes are kept,
  and bytes received while the total stays below 48 are only appended.
\<close>

theorem extract_loop_needs_48:
  "(length (buf self) < 48 \<longrightarrow> extract_loop unpack self = Some (Inr self)) \<and>
   (\<forall>data. data \<noteq> [] \<and> length (buf self) + length data < 48 \<longrightarrow>
      run_step unpack self (Some data) = Some (Inr (self\<lparr>buf := buf self @ data\<rparr>)))"
  using extract_loop_short [of "self\<lparr>buf := buf self @ data\<rparr>" unpack for data]
  by (auto simp: extract_loop_short run_step_def)

theorem extract_loop_needs_48_witness:
  "length (buf (ex_conn (ex_frame 10 5))) < 48 \<and>
   packet_length (buf (ex_conn (ex_frame 10 5))) = length (buf (ex_conn (ex_frame 10 5))) \<and>
   extract_loop ex_unpack (ex_conn (ex_frame 10 5)) = Some (Inr (ex_conn (ex_frame 10 5))) \<and>
   replicate 5 (0 :: byte) \<noteq> [] \<and>
   length (buf (ex_conn (ex_frame 10 5))) + length (replicate 5 (0 :: byte)) < 48 \<and>
   run_step ex_unpack (ex_conn (ex_frame 10 5)) (Some (replicate 5 0)) =
     Some (Inr ((ex_conn (ex_frame 10 5))\<lparr>buf := buf (ex_conn (ex_frame 10 5)) @ replicate 5 0\<rparr>))"
proof -
  let ?c = "ex_conn (ex_frame 10 5)"
  have a: "length (buf ?c) < 48" by (simp add: ex_conn_def ex_frame_def)
  have p: "packet_length (buf ?c) = length (buf ?c)"
    by (simp add: ex_conn_def ex_frame_def packet_length_def)
  have d: "replicate 5 (0 :: byte) \<noteq> [] \<and> length (buf ?c) + length (replicate 5 (0 :: byte)) < 48"
    by (simp add: ex_conn_def ex_frame_def)
  from extract_loop_needs_48 [of ?c ex_unpack] a d p show ?thesis by blast
qed

text \<open>
  C7. From the state \<open>CONNECTED\<close>, packets with the modes Ready, Running, Ready are to
  leave the connection in \<open>READY_TO_PROGRAM\<close> with the ready-to-program trigger fired
  once. \<^verbatim>\<open>__on_packet\<close> raises NameError on its first statement, for every packet and
  every decoder, so the state machine is never reached: the first packet already ends the
  processing, with the state still \<open>CONNECTED\<close> and no trigger fired.
\<close>

theorem on_packets_never_reach_state_machine:
  "robot_state (ex_conn []) = CONNECTED \<and>
   real_robot_enabled (ex_unpack [2]) \<and> robot_mode (ex_unpack [2]) = READY \<and>
   real_robot_enabled (ex_unpack [0]) \<and> robot_mode (ex_unpack [0]) = RUNNING \<and>
   on_packet ex_unpack (ex_conn []) [2] = Inl NameError \<and>
   on_packets ex_unpack (ex_conn []) [[2], [0], [2]] = Inl NameError"
  by (simp add: on_packet_NameError ex_conn_def ex_unpack_def)

end
